theory Spec2Isabelle
  imports Main "HOL-Library.Word" "HOL-Library.List_Lexorder" "HOL-Library.Multiset"
begin

section \<open>Go strings\<close>

text \<open>
  A Go string is a byte sequence; every string the claims speak about is valid UTF-8, so a
  string is represented by the code points that \<^verbatim>\<open>[]rune(s)\<close> yields. A rune is Go's
  \<^verbatim>\<open>int32\<close>, kept as an \<open>int\<close>. \<^verbatim>\<open>len(s)\<close> counts bytes, and \<^verbatim>\<open><\<close> on strings compares
  bytes, so the UTF-8 encoding is written out.
\<close>

type_synonym rune = int
type_synonym gostring = "rune list"

definition runes :: "string \<Rightarrow> gostring" where
  "runes s = map of_char s"

definition valid_rune :: "rune \<Rightarrow> bool" where
  "valid_rune r \<longleftrightarrow> 0 \<le> r \<and> (r < 0xD800 \<or> (0xE000 \<le> r \<and> r \<le> 0x10FFFF))"

definition utf8_string :: "gostring \<Rightarrow> bool" where
  "utf8_string s \<longleftrightarrow> list_all valid_rune s"

definition utf8_rune :: "rune \<Rightarrow> int list" where
  "utf8_rune r =
     (if r < 0x80 then [r]
      else if r < 0x800 then [0xC0 + r div 0x40, 0x80 + r mod 0x40]
      else if r < 0x10000 then
        [0xE0 + r div 0x1000, 0x80 + r div 0x40 mod 0x40, 0x80 + r mod 0x40]
      else [0xF0 + r div 0x40000, 0x80 + r div 0x1000 mod 0x40,
            0x80 + r div 0x40 mod 0x40, 0x80 + r mod 0x40])"

definition bytes_of :: "gostring \<Rightarrow> int list" where
  "bytes_of s = concat (map utf8_rune s)"

text \<open>\<^verbatim>\<open>len(s)\<close>: the number of bytes of \<open>s\<close>.\<close>

definition len :: "gostring \<Rightarrow> nat" where
  "len s = length (bytes_of s)"

text \<open>\<^verbatim>\<open>string(rs)\<close> for a rune slice: a rune that is no code point becomes U+FFFD.\<close>

definition string_of_runes :: "rune list \<Rightarrow> gostring" where
  "string_of_runes rs = map (\<lambda>r. if valid_rune r then r else 0xFFFD) rs"

text \<open>\<^verbatim>\<open>strings.Contains(s, substr)\<close>.\<close>

fun strings_Contains :: "gostring \<Rightarrow> gostring \<Rightarrow> bool" where
  "strings_Contains [] substr = (substr = [])"
| "strings_Contains (c # cs) substr =
     (take (length substr) (c # cs) = substr \<or> strings_Contains cs substr)"

section \<open>Key escaper\<close>

subsection \<open>The hex escaper of package escape\<close>

text \<open>
  Modelled from the spec: \<^verbatim>\<open>escape.HexEscape\<close>, \<^verbatim>\<open>escape.HexUnescape\<close> and
  \<^verbatim>\<open>escape.IsASCIIAlphanumeric\<close> are called by azureblob.go and defined in package
  \<^verbatim>\<open>gocloud.dev/internal/escape\<close>, outside that file. Section 4.1 of the specification and
  the package comment of azureblob.go give the marker: an escaped character is replaced by
  \<^verbatim>\<open>__0x<hex>__\<close>, \<^verbatim>\<open><hex>\<close> being its code point in hexadecimal; unescape reverses the markers
  it recognizes and passes everything else through unchanged.
\<close>

text \<open>Modelled from the spec: one hexadecimal digit of a marker, in lower case.\<close>

definition hex_digit :: "int \<Rightarrow> rune" where
  "hex_digit d = (if d < 10 then 48 + d else 87 + d)"

text \<open>Modelled from the spec: the \<^verbatim>\<open><hex>\<close> of a marker, without leading zeros.\<close>

function to_hex :: "int \<Rightarrow> rune list" where
  "to_hex n = (if n < 16 then [hex_digit n] else to_hex (n div 16) @ [hex_digit (n mod 16)])"
  by pat_completeness auto
termination
  by (relation "measure nat") auto

declare to_hex.simps [simp del]

text \<open>Modelled from the spec: the marker \<^verbatim>\<open>__0x<hex>__\<close> of a code point.\<close>

definition marker :: "rune \<Rightarrow> rune list" where
  "marker r = runes ''__0x'' @ to_hex r @ runes ''__''"

text \<open>
  Modelled from the spec: \<^verbatim>\<open>escape.HexEscape(s, shouldEscape)\<close>. The callback receives the
  runes of \<open>s\<close> and an index, as the two callers in azureblob.go define it; every rune it
  selects is replaced by its marker.
\<close>

definition HexEscape :: "gostring \<Rightarrow> (rune list \<Rightarrow> nat \<Rightarrow> bool) \<Rightarrow> gostring" where
  "HexEscape s shouldEscape =
     concat (map (\<lambda>i. if shouldEscape s i then marker (s ! i) else [s ! i]) [0..<length s])"

text \<open>Modelled from the spec: the value of a hexadecimal digit, in either case.\<close>

definition digit_val :: "rune \<Rightarrow> int option" where
  "digit_val c =
     (if 48 \<le> c \<and> c \<le> 57 then Some (c - 48)
      else if 97 \<le> c \<and> c \<le> 102 then Some (c - 87)
      else if 65 \<le> c \<and> c \<le> 70 then Some (c - 55)
      else None)"

fun parse_digits :: "int \<Rightarrow> rune list \<Rightarrow> int option" where
  "parse_digits acc [] = Some acc"
| "parse_digits acc (c # cs) =
     (case digit_val c of None \<Rightarrow> None | Some d \<Rightarrow> parse_digits (16 * acc + d) cs)"

text \<open>
  Modelled from the spec: the \<^verbatim>\<open><hex>\<close> of a recognized marker is a non-empty run of
  hexadecimal digits whose value fits a rune (\<^verbatim>\<open>int32\<close>).
\<close>

definition parse_hex :: "rune list \<Rightarrow> rune option" where
  "parse_hex ds =
     (if ds = [] then None
      else case parse_digits 0 ds of
             None \<Rightarrow> None
           | Some v \<Rightarrow> if v \<le> 0x7FFFFFFF then Some v else None)"

text \<open>
  Modelled from the spec: recognizing a marker at the head of the input. The result is the
  escaped rune and the number of input runes the marker takes.
\<close>

definition unescape :: "rune list \<Rightarrow> (rune \<times> nat) option" where
  "unescape s =
     (if take 4 s = runes ''__0x'' then
        (let hexdigits = takeWhile (\<lambda>c. c \<noteq> 95) (drop 4 s);
             rest = dropWhile (\<lambda>c. c \<noteq> 95) (drop 4 s)
         in if take 2 rest = runes ''__'' then
              (case parse_hex hexdigits of
                 None \<Rightarrow> None
               | Some v \<Rightarrow> Some (v, 4 + length hexdigits + 2))
            else None)
      else None)"

text \<open>
  Modelled from the spec: the left-to-right scan of \<^verbatim>\<open>escape.HexUnescape\<close>. The first
  argument counts the runes still to be skipped because they belong to a marker that has
  been replaced.
\<close>

fun unescape_loop :: "nat \<Rightarrow> rune list \<Rightarrow> rune list" where
  "unescape_loop skip [] = []"
| "unescape_loop (Suc skip) (c # cs) = unescape_loop skip cs"
| "unescape_loop 0 (c # cs) =
     (case unescape (c # cs) of
        Some (r, used) \<Rightarrow> r # unescape_loop (used - 1) cs
      | None \<Rightarrow> c # unescape_loop 0 cs)"

text \<open>Modelled from the spec: \<^verbatim>\<open>escape.HexUnescape(s)\<close>.\<close>

definition HexUnescape :: "gostring \<Rightarrow> gostring" where
  "HexUnescape s = string_of_runes (unescape_loop 0 s)"

text \<open>Modelled from the spec: \<^verbatim>\<open>escape.IsASCIIAlphanumeric\<close>, an ASCII letter or digit.\<close>

definition IsASCIIAlphanumeric :: "rune \<Rightarrow> bool" where
  "IsASCIIAlphanumeric c \<longleftrightarrow>
     (97 \<le> c \<and> c \<le> 122) \<or> (65 \<le> c \<and> c \<le> 90) \<or> (48 \<le> c \<and> c \<le> 57)"

subsection \<open>escapeKey and unescapeKey\<close>

text \<open>
  The callback of \<^verbatim>\<open>escapeKey\<close> (azureblob.go, lines 856-874). \<open>key\<close> is the string,
  \<open>r\<close> its runes and \<open>i\<close> an index into \<open>r\<close>; the third case compares the rune index
  with the byte length \<^verbatim>\<open>len(key)\<close>, in Go's \<^verbatim>\<open>int\<close>.
\<close>

definition shouldEscapeKey :: "gostring \<Rightarrow> bool \<Rightarrow> rune list \<Rightarrow> nat \<Rightarrow> bool" where
  "shouldEscapeKey key isPrefix r i =
     (let c = r ! i in
      if c = 92 then True
      else if c < 32 \<or> c = 127 then True
      else if \<not> isPrefix \<and> int i = int (len key) - 1 \<and> c = 47 then True
      else if i > 1 \<and> r ! i = 47 \<and> r ! (i - 1) = 46 \<and> r ! (i - 2) = 46 then True
      else False)"

definition escapeKey :: "gostring \<Rightarrow> bool \<Rightarrow> gostring" where
  "escapeKey key isPrefix = HexEscape key (shouldEscapeKey key isPrefix)"

definition unescapeKey :: "gostring \<Rightarrow> gostring" where
  "unescapeKey key = HexUnescape key"

text \<open>
  A key is free of marker heads when the four characters \<^verbatim>\<open>__0x\<close> occur nowhere in it.
\<close>

fun marker_free :: "gostring \<Rightarrow> bool" where
  "marker_free [] = True"
| "marker_free (c # cs) = (take 4 (c # cs) \<noteq> runes ''__0x'' \<and> marker_free cs)"

text \<open>
  Escaping with the decisions given as a list of flags, one per rune: the form in which
  the scan of the unescaper is followed rune by rune.
\<close>

definition escape_flags :: "bool list \<Rightarrow> rune list \<Rightarrow> rune list" where
  "escape_flags bs s = concat (map2 (\<lambda>b c. if b then marker c else [c]) bs s)"

section \<open>Errors\<close>

text \<open>The portable error codes of package \<^verbatim>\<open>gcerrors\<close>.\<close>

datatype gcerrors_ErrorCode =
  OK | Unknown | NotFound | AlreadyExists | InvalidArgument | Internal | Unimplemented
  | FailedPrecondition | PermissionDenied | ResourceExhausted | Canceled | DeadlineExceeded

text \<open>
  A Go \<^verbatim>\<open>error\<close> value, by its dynamic type: the two SDK error types that
  \<^verbatim>\<open>ErrorCode\<close> looks for, with their error code, HTTP status and text; an error built by
  \<^verbatim>\<open>gcerr.New(code, nil, 1, msg)\<close>; an error built by \<^verbatim>\<open>errors.New\<close> or \<^verbatim>\<open>fmt.Errorf\<close>
  (or of any other type), with its text; and an error that wraps another one, which
  \<^verbatim>\<open>errors.As\<close> walks through.
\<close>

datatype error =
  StorageError gostring int gostring
  | ResponseError gostring int gostring
  | GcerrError gcerrors_ErrorCode gostring
  | PlainError gostring
  | WrapError gostring error

text \<open>\<^verbatim>\<open>errors.As(err, &sErr)\<close> for \<^verbatim>\<open>*azblob.StorageError\<close>: its code and status.\<close>

fun as_StorageError :: "error \<Rightarrow> (gostring \<times> int) option" where
  "as_StorageError (StorageError code status text) = Some (code, status)"
| "as_StorageError (WrapError text e) = as_StorageError e"
| "as_StorageError (ResponseError code status text) = None"
| "as_StorageError (GcerrError code msg) = None"
| "as_StorageError (PlainError text) = None"

text \<open>\<^verbatim>\<open>errors.As(err, &rErr)\<close> for \<^verbatim>\<open>*azcore.ResponseError\<close>.\<close>

fun as_ResponseError :: "error \<Rightarrow> (gostring \<times> int) option" where
  "as_ResponseError (ResponseError code status text) = Some (code, status)"
| "as_ResponseError (WrapError text e) = as_ResponseError e"
| "as_ResponseError (StorageError code status text) = None"
| "as_ResponseError (GcerrError code msg) = None"
| "as_ResponseError (PlainError text) = None"

text \<open>\<^verbatim>\<open>err.Error()\<close>; of an error of package gcerr only the message is kept.\<close>

fun error_text :: "error \<Rightarrow> gostring" where
  "error_text (StorageError code status text) = text"
| "error_text (ResponseError code status text) = text"
| "error_text (GcerrError code msg) = msg"
| "error_text (PlainError text) = text"
| "error_text (WrapError text e) = text"

text \<open>The portable code an error carries by itself: only errors built by gcerr have one.\<close>

fun gcerr_code :: "error \<Rightarrow> gcerrors_ErrorCode option" where
  "gcerr_code (GcerrError code msg) = Some code"
| "gcerr_code (WrapError text e) = gcerr_code e"
| "gcerr_code (StorageError code status text) = None"
| "gcerr_code (ResponseError code status text) = None"
| "gcerr_code (PlainError text) = None"

section \<open>Error classifier\<close>

definition StorageErrorCodeBlobNotFound :: gostring where
  "StorageErrorCodeBlobNotFound = runes ''BlobNotFound''"

definition StorageErrorCodeAuthenticationFailed :: gostring where
  "StorageErrorCodeAuthenticationFailed = runes ''AuthenticationFailed''"

text \<open>
  \<^verbatim>\<open>(b *bucket) ErrorCode\<close> (azureblob.go, lines 645-670). The first three branches fetch
  \<open>errorCode\<close> and \<open>statusCode\<close>, or return at once; the tail compares them.
\<close>

definition ErrorCode :: "error \<Rightarrow> gcerrors_ErrorCode" where
  "ErrorCode err =
     (case (case as_StorageError err of
              Some (errorCode, statusCode) \<Rightarrow> Inr (errorCode, statusCode)
            | None \<Rightarrow>
                (case as_ResponseError err of
                   Some (errorCode, statusCode) \<Rightarrow> Inr (errorCode, statusCode)
                 | None \<Rightarrow>
                     if strings_Contains (error_text err) (runes ''no such host'')
                     then Inl NotFound
                     else Inl Unknown))
      of Inl code \<Rightarrow> code
       | Inr (errorCode, statusCode) \<Rightarrow>
           if errorCode = StorageErrorCodeBlobNotFound \<or> statusCode = 404 then NotFound
           else if errorCode = StorageErrorCodeAuthenticationFailed then PermissionDenied
           else Unknown)"

text \<open>
  The structured code and status an error carries, as \<^verbatim>\<open>ErrorCode\<close> reads them: those of
  the \<^verbatim>\<open>StorageError\<close> in its chain, else those of the \<^verbatim>\<open>ResponseError\<close> in its chain.
\<close>

definition structured :: "error \<Rightarrow> (gostring \<times> int) option" where
  "structured err =
     (case as_StorageError err of Some cs \<Rightarrow> Some cs | None \<Rightarrow> as_ResponseError err)"

section \<open>Copy\<close>

text \<open>
  What a Go call yields: it returns a value, it panics (a nil pointer is dereferenced), or
  it is still running when the recorded answers of the backend are used up.
\<close>

datatype 'a outcome = Return 'a | Panic | Running

definition CopyStatusTypePending :: gostring where
  "CopyStatusTypePending = runes ''pending''"

definition CopyStatusTypeSuccess :: gostring where
  "CopyStatusTypeSuccess = runes ''success''"

text \<open>
  One round of the polling loop, as the backend and the context answer it:
  \<^verbatim>\<open>propertiesResp.CopyStatus\<close> (a pointer, \<open>None\<close> when nil), the \<open>err\<close> of
  \<^verbatim>\<open>GetProperties\<close>, and \<^verbatim>\<open>ctx.Err()\<close>.
\<close>

record poll =
  poll_CopyStatus :: "gostring option"
  poll_err :: "error option"
  poll_ctx_Err :: "error option"

text \<open>
  The polling loop of \<^verbatim>\<open>Copy\<close> (lines 495-514), entered with \<open>nErrors\<close> and
  \<open>copyStatus\<close>; the list holds the answers of the rounds to come.
\<close>

fun copy_poll :: "nat \<Rightarrow> gostring \<Rightarrow> poll list \<Rightarrow> error option outcome" where
  "copy_poll nErrors copyStatus [] =
     (if copyStatus = CopyStatusTypePending then Running
      else if copyStatus \<noteq> CopyStatusTypeSuccess then
        Return (Some (PlainError (runes ''Copy failed with status: '' @ copyStatus)))
      else Return None)"
| "copy_poll nErrors copyStatus (p # ps) =
     (if copyStatus = CopyStatusTypePending then
        (let nErrors' = (if poll_err p \<noteq> None then nErrors + 1 else nErrors) in
         if poll_err p \<noteq> None \<and> (poll_ctx_Err p \<noteq> None \<or> nErrors' = 3) then Return (poll_err p)
         else (case poll_CopyStatus p of
                 None \<Rightarrow> Panic
               | Some st \<Rightarrow> copy_poll nErrors' st ps))
      else if copyStatus \<noteq> CopyStatusTypeSuccess then
        Return (Some (PlainError (runes ''Copy failed with status: '' @ copyStatus)))
      else Return None)"

text \<open>
  The backend as \<^verbatim>\<open>Copy\<close> meets it: the error of \<^verbatim>\<open>NewBlobClient\<close> for an escaped key,
  the \<^verbatim>\<open>BeforeCopy\<close> hook (\<open>None\<close> when nil, else the error it returns), the copy status and
  error of \<^verbatim>\<open>StartCopyFromURL\<close>, and the answers to the polls.
\<close>

record copy_env =
  copy_NewBlobClient :: "gostring \<Rightarrow> error option"
  copy_BeforeCopy :: "error option option"
  copy_StartCopyFromURL :: "gostring option \<times> error option"
  copy_polls :: "poll list"

text \<open>\<^verbatim>\<open>(b *bucket) Copy\<close> (lines 466-515).\<close>

definition Copy :: "copy_env \<Rightarrow> gostring \<Rightarrow> gostring \<Rightarrow> error option outcome" where
  "Copy env dstKey srcKey =
     (case copy_NewBlobClient env (escapeKey dstKey False) of
        Some err \<Rightarrow> Return (Some err)
      | None \<Rightarrow>
     (case copy_NewBlobClient env (escapeKey srcKey False) of
        Some err \<Rightarrow> Return (Some err)
      | None \<Rightarrow>
     (case (case copy_BeforeCopy env of None \<Rightarrow> None | Some r \<Rightarrow> r) of
        Some err \<Rightarrow> Return (Some err)
      | None \<Rightarrow>
     (case copy_StartCopyFromURL env of
        (st, Some err) \<Rightarrow> Return (Some err)
      | (None, None) \<Rightarrow> Panic
      | (Some copyStatus, None) \<Rightarrow> copy_poll 0 copyStatus (copy_polls env)))))"

section \<open>Calls to the backend\<close>

text \<open>
  The requests of azureblob.go to the Azure SDK, in the order in which an operation makes
  them. A client is named by the escaped key it was made for;
  \<open>None\<close> is the nil client.
\<close>

record BlobSASPermissions =
  perm_Read :: bool
  perm_Create :: bool
  perm_Write :: bool
  perm_Delete :: bool

record ContainerListBlobsHierarchyOptions =
  az_MaxResults :: "32 word"
  az_Prefix :: gostring
  az_Marker :: "gostring option"

record BlobDownloadOptions =
  dl_Offset :: int
  dl_Count :: "int option"

datatype upload_body = NoBody | PipeBody

datatype backend_call =
  NewBlobClient gostring
  | NewBlockBlobClient gostring
  | GetSASToken gostring BlobSASPermissions int int
  | Download "gostring option" BlobDownloadOptions
  | ListBlobsHierarchy gostring ContainerListBlobsHierarchyOptions
  | UploadStream upload_body

section \<open>ListPaged\<close>

definition defaultPageSize :: int where
  "defaultPageSize = 1000"

text \<open>Azure's own default page size, as the comment on \<^verbatim>\<open>defaultPageSize\<close> records it.\<close>

definition azureDefaultPageSize :: int where
  "azureDefaultPageSize = 5000"

record ListOptions =
  lo_Prefix :: gostring
  lo_Delimiter :: gostring
  lo_PageToken :: gostring
  lo_PageSize :: int
  lo_BeforeList ::
    "(ContainerListBlobsHierarchyOptions \<Rightarrow> ContainerListBlobsHierarchyOptions \<times> error option) option"

record BlobPrefix =
  bp_Name :: "gostring option"

record BlobPropertiesInternal =
  bpr_LastModified :: "int option"
  bpr_ContentLength :: "int option"
  bpr_ContentMD5 :: "int list"

record BlobItemInternal =
  bi_Name :: "gostring option"
  bi_Properties :: "BlobPropertiesInternal option"

record BlobHierarchyListSegment =
  seg_BlobPrefixes :: "BlobPrefix option list"
  seg_BlobItems :: "BlobItemInternal option list"

record ListBlobsHierarchyResponse =
  lr_Segment :: "BlobHierarchyListSegment option"
  lr_NextMarker :: "gostring option"

record ListObject =
  lobj_Key :: gostring
  lobj_ModTime :: int
  lobj_Size :: int
  lobj_MD5 :: "int list"
  lobj_IsDir :: bool

record ListPage =
  lp_Objects :: "ListObject list"
  lp_NextPageToken :: gostring

text \<open>\<^verbatim>\<open>to.String\<close>: the string a pointer refers to, the empty string for nil.\<close>

definition to_String :: "gostring option \<Rightarrow> gostring" where
  "to_String p = (case p of None \<Rightarrow> [] | Some s \<Rightarrow> s)"

text \<open>
  The body of the loop over \<^verbatim>\<open>segment.BlobPrefixes\<close> (lines 755-769); \<open>None\<close> when a nil
  pointer is dereferenced. The zero time is 0.
\<close>

definition prefix_object :: "BlobPrefix option \<Rightarrow> ListObject option" where
  "prefix_object blobPrefix =
     (case blobPrefix of
        None \<Rightarrow> None
      | Some bp \<Rightarrow>
          Some \<lparr>lobj_Key = unescapeKey (to_String (bp_Name bp)), lobj_ModTime = 0,
                lobj_Size = 0, lobj_MD5 = [], lobj_IsDir = True\<rparr>)"

text \<open>The body of the loop over \<^verbatim>\<open>segment.BlobItems\<close> (lines 770-787).\<close>

definition item_object :: "BlobItemInternal option \<Rightarrow> ListObject option" where
  "item_object blobInfo =
     (case blobInfo of
        None \<Rightarrow> None
      | Some bi \<Rightarrow>
          (case bi_Properties bi of
             None \<Rightarrow> None
           | Some props \<Rightarrow>
               (case bpr_LastModified props of
                  None \<Rightarrow> None
                | Some modTime \<Rightarrow>
                    (case bpr_ContentLength props of
                       None \<Rightarrow> None
                     | Some contentLength \<Rightarrow>
                         Some \<lparr>lobj_Key = unescapeKey (to_String (bi_Name bi)),
                               lobj_ModTime = modTime, lobj_Size = contentLength,
                               lobj_MD5 = bpr_ContentMD5 props, lobj_IsDir = False\<rparr>))))"

text \<open>A loop that appends one object per element, and panics where an element does.\<close>

fun append_objects :: "('a \<Rightarrow> ListObject option) \<Rightarrow> 'a list \<Rightarrow> ListObject list option" where
  "append_objects f [] = Some []"
| "append_objects f (x # xs) =
     (case f x of
        None \<Rightarrow> None
      | Some obj \<Rightarrow> (case append_objects f xs of None \<Rightarrow> None | Some objs \<Rightarrow> Some (obj # objs)))"

text \<open>
  \<^verbatim>\<open>sort.Slice\<close> with the comparison \<^verbatim>\<open>Objects[i].Key < Objects[j].Key\<close>, which compares
  the bytes of the keys. \<^verbatim>\<open>sort.Slice\<close> promises no order among equal keys; the insertion
  sort taken here keeps theirs.
\<close>

definition sort_Slice_by_Key :: "ListObject list \<Rightarrow> ListObject list" where
  "sort_Slice_by_Key objs = sort_key (\<lambda>obj. bytes_of (lobj_Key obj)) objs"

text \<open>Lines 751-796: the page built from the response of the backend.\<close>

definition page_of_response :: "ListBlobsHierarchyResponse \<Rightarrow> (error + ListPage) outcome" where
  "page_of_response resp =
     (case lr_Segment resp of
        None \<Rightarrow> Panic
      | Some segment \<Rightarrow>
          (case append_objects prefix_object (seg_BlobPrefixes segment) of
             None \<Rightarrow> Panic
           | Some dirs \<Rightarrow>
               (case append_objects item_object (seg_BlobItems segment) of
                  None \<Rightarrow> Panic
                | Some items \<Rightarrow>
                    (let objects = dirs @ items;
                         token = (case lr_NextMarker resp of None \<Rightarrow> [] | Some m \<Rightarrow> m);
                         objects' =
                           (if length (seg_BlobPrefixes segment) > 0
                               \<and> length (seg_BlobItems segment) > 0
                            then sort_Slice_by_Key objects else objects)
                     in Return (Inr \<lparr>lp_Objects = objects', lp_NextPageToken = token\<rparr>)))))"

text \<open>
  Lines 715-732: the options of the request, before the \<^verbatim>\<open>BeforeList\<close> hook sees them.
  \<^verbatim>\<open>int32(pageSize)\<close> keeps the low 32 bits.
\<close>

definition list_request :: "ListOptions \<Rightarrow> ContainerListBlobsHierarchyOptions" where
  "list_request opts =
     (let pageSize = (if lo_PageSize opts = 0 then defaultPageSize else lo_PageSize opts);
          marker = (if length (lo_PageToken opts) > 0 then Some (lo_PageToken opts) else None)
      in \<lparr>az_MaxResults = word_of_int pageSize,
          az_Prefix = escapeKey (lo_Prefix opts) True,
          az_Marker = marker\<rparr>)"

text \<open>
  \<^verbatim>\<open>(b *bucket) ListPaged\<close> (lines 714-797). The backend answers a request for a delimiter
  and options with a response or an error. The result is paired with the requests made.
\<close>

definition ListPaged ::
  "(gostring \<Rightarrow> ContainerListBlobsHierarchyOptions \<Rightarrow> error + ListBlobsHierarchyResponse)
   \<Rightarrow> ListOptions \<Rightarrow> backend_call list \<times> (error + ListPage) outcome" where
  "ListPaged backend opts =
     (case (case lo_BeforeList opts of
              None \<Rightarrow> (list_request opts, None)
            | Some hook \<Rightarrow> hook (list_request opts))
      of (azOpts, Some err) \<Rightarrow> ([], Return (Inl err))
       | (azOpts, None) \<Rightarrow>
           (let delimiter = escapeKey (lo_Delimiter opts) True in
            case backend delimiter azOpts of
              Inl err \<Rightarrow> ([ListBlobsHierarchy delimiter azOpts], Return (Inl err))
            | Inr resp \<Rightarrow> ([ListBlobsHierarchy delimiter azOpts], page_of_response resp)))"

section \<open>SignedURL\<close>

record SignedURLOptions =
  so_Method :: gostring
  so_Expiry :: int
  so_ContentType :: gostring
  so_EnforceAbsentContentType :: bool
  so_BeforeSign :: "(BlobSASPermissions \<Rightarrow> BlobSASPermissions \<times> error option) option"

text \<open>
  The backend as \<^verbatim>\<open>SignedURL\<close> meets it: the error of \<^verbatim>\<open>NewBlobClient\<close> for an escaped
  key, the URL of that client, the clock, and \<^verbatim>\<open>GetSASToken\<close>, which yields the encoded
  query parameters and an error.
\<close>

record sign_env =
  sign_NewBlobClient :: "gostring \<Rightarrow> error option"
  sign_URL :: "gostring \<Rightarrow> gostring"
  sign_Now :: int
  sign_GetSASToken :: "gostring \<Rightarrow> BlobSASPermissions \<Rightarrow> int \<Rightarrow> int \<Rightarrow> gostring \<times> error option"

text \<open>The switch on \<^verbatim>\<open>opts.Method\<close> (lines 811-822); \<open>None\<close> is the default branch.\<close>

definition method_perms :: "gostring \<Rightarrow> BlobSASPermissions option" where
  "method_perms m =
     (let perms = \<lparr>perm_Read = False, perm_Create = False, perm_Write = False,
                   perm_Delete = False\<rparr>
      in if m = runes ''GET'' then Some (perms\<lparr>perm_Read := True\<rparr>)
         else if m = runes ''PUT'' then Some (perms\<lparr>perm_Create := True, perm_Write := True\<rparr>)
         else if m = runes ''DELETE'' then Some (perms\<lparr>perm_Delete := True\<rparr>)
         else None)"

text \<open>
  \<^verbatim>\<open>(b *bucket) SignedURL\<close> (lines 800-841), with the calls made. The \<open>err\<close> of
  \<^verbatim>\<open>GetSASToken\<close> is assigned on line 838 and not read afterwards.
\<close>

definition SignedURL ::
  "sign_env \<Rightarrow> gostring \<Rightarrow> SignedURLOptions \<Rightarrow> backend_call list \<times> (error + gostring)" where
  "SignedURL env key opts =
     (if so_ContentType opts \<noteq> [] \<or> so_EnforceAbsentContentType opts then
        ([], Inl (GcerrError Unimplemented
                    (runes ''azureblob: does not enforce Content-Type on PUT'')))
      else
        (let key' = escapeKey key False in
         case sign_NewBlobClient env key' of
           Some err \<Rightarrow> ([NewBlobClient key'], Inl err)
         | None \<Rightarrow>
             (case method_perms (so_Method opts) of
                None \<Rightarrow>
                  ([NewBlobClient key'],
                   Inl (PlainError (runes ''unsupported Method '' @ so_Method opts)))
              | Some perms0 \<Rightarrow>
                  (case (case so_BeforeSign opts of
                           None \<Rightarrow> (perms0, None)
                         | Some hook \<Rightarrow> hook perms0)
                   of (perms, Some err) \<Rightarrow> ([NewBlobClient key'], Inl err)
                    | (perms, None) \<Rightarrow>
                        (let start = sign_Now env;
                             expiry = start + so_Expiry opts;
                             (sasQueryParams, err) = sign_GetSASToken env key' perms start expiry;
                             sasURL = sign_URL env key' @ runes ''?'' @ sasQueryParams
                         in ([NewBlobClient key', GetSASToken key' perms start expiry],
                             Inr sasURL))))))"

section \<open>NewRangeReader\<close>

record BlobDownloadResponse =
  dr_ContentType :: "gostring option"
  dr_ContentLength :: "int option"
  dr_ContentRange :: "gostring option"
  dr_LastModified :: "int option"

record ReaderOptions =
  ro_BeforeRead :: "(BlobDownloadOptions \<Rightarrow> BlobDownloadOptions \<times> error option) option"

record ReaderAttributes =
  ra_ContentType :: gostring
  ra_Size :: int
  ra_ModTime :: int

datatype reader_body = HttpNoBody | ResponseBody

record reader =
  rd_body :: reader_body
  rd_attrs :: ReaderAttributes
  rd_raw :: BlobDownloadResponse

text \<open>\<^verbatim>\<open>strings.Split(s, "/")\<close>.\<close>

fun split_slash :: "gostring \<Rightarrow> gostring list" where
  "split_slash [] = [] # []"
| "split_slash (c # cs) =
     (if c = 47 then [] # split_slash cs
      else (c # hd (split_slash cs)) # tl (split_slash cs))"

text \<open>
  \<^verbatim>\<open>strconv.ParseInt(s, 10, 64)\<close>: an optional sign and decimal digits, within the range of
  \<^verbatim>\<open>int64\<close>; \<open>None\<close> is the error.
\<close>

definition ParseInt :: "gostring \<Rightarrow> int option" where
  "ParseInt s =
     (let neg = (s \<noteq> [] \<and> hd s = 45);
          ds = (if s \<noteq> [] \<and> (hd s = 43 \<or> hd s = 45) then tl s else s)
      in if ds = [] \<or> \<not> list_all (\<lambda>c. 48 \<le> c \<and> c \<le> 57) ds then None
         else (let v = foldl (\<lambda>a c. 10 * a + (c - 48)) 0 ds;
                   i = (if neg then - v else v)
               in if - 0x8000000000000000 \<le> i \<and> i \<le> 0x7FFFFFFFFFFFFFFF then Some i
                  else None))"

text \<open>\<^verbatim>\<open>getSize\<close> (lines 596-611).\<close>

definition getSize :: "int \<Rightarrow> gostring \<Rightarrow> int" where
  "getSize contentLength contentRange =
     (if contentRange \<noteq> [] then
        (let parts = split_slash contentRange in
         if length parts = 2 then
           (case ParseInt (parts ! 1) of Some i \<Rightarrow> i | None \<Rightarrow> contentLength)
         else contentLength)
      else contentLength)"

text \<open>
  The backend as \<^verbatim>\<open>NewRangeReader\<close> meets it: \<^verbatim>\<open>NewBlobClient\<close> yields a client and an
  error; \<^verbatim>\<open>Download\<close> on a client (nil or not) yields a response and an error, or panics.
\<close>

record read_env =
  read_NewBlobClient :: "gostring \<Rightarrow> gostring option \<times> error option"
  read_Download ::
    "gostring option \<Rightarrow> BlobDownloadOptions \<Rightarrow> (BlobDownloadResponse \<times> error option) outcome"

text \<open>
  \<^verbatim>\<open>(b *bucket) NewRangeReader\<close> (lines 554-594), with the calls made. The \<open>err\<close> of
  \<^verbatim>\<open>NewBlobClient\<close> on line 556 is not read before line 574 assigns it again.
\<close>

definition NewRangeReader ::
  "read_env \<Rightarrow> gostring \<Rightarrow> int \<Rightarrow> int \<Rightarrow> ReaderOptions
   \<Rightarrow> backend_call list \<times> (error + reader) outcome" where
  "NewRangeReader env key offset length' opts =
     (let key' = escapeKey key False;
          (blobClient, err0) = read_NewBlobClient env key';
          downloadOpts0 = \<lparr>dl_Offset = offset,
                           dl_Count = (if length' \<ge> 0 then Some length' else None)\<rparr>
      in case (case ro_BeforeRead opts of
                 None \<Rightarrow> (downloadOpts0, None)
               | Some hook \<Rightarrow> hook downloadOpts0)
         of (downloadOpts, Some err) \<Rightarrow> ([NewBlobClient key'], Return (Inl err))
          | (downloadOpts, None) \<Rightarrow>
              (let calls = [NewBlobClient key', Download blobClient downloadOpts] in
               case read_Download env blobClient downloadOpts of
                 Panic \<Rightarrow> (calls, Panic)
               | Running \<Rightarrow> (calls, Running)
               | Return (resp, Some err) \<Rightarrow> (calls, Return (Inl err))
               | Return (resp, None) \<Rightarrow>
                   (case dr_ContentLength resp of
                      None \<Rightarrow> (calls, Panic)
                    | Some contentLength \<Rightarrow>
                        (case dr_LastModified resp of
                           None \<Rightarrow> (calls, Panic)
                         | Some lastModified \<Rightarrow>
                             (let attrs = \<lparr>ra_ContentType = to_String (dr_ContentType resp),
                                           ra_Size = getSize contentLength
                                                       (to_String (dr_ContentRange resp)),
                                           ra_ModTime = lastModified\<rparr>;
                                  body = (if length' = 0 then HttpNoBody else ResponseBody)
                              in (calls, Return (Inr \<lparr>rd_body = body, rd_attrs = attrs,
                                                      rd_raw = resp\<rparr>)))))))"

section \<open>NewTypedWriter and the writer\<close>

definition defaultUploadBuffers :: int where
  "defaultUploadBuffers = 5"

definition defaultUploadBlockSize :: int where
  "defaultUploadBlockSize = 8 * 1024 * 1024"

record BlobHTTPHeaders =
  hd_BlobCacheControl :: gostring
  hd_BlobContentDisposition :: gostring
  hd_BlobContentEncoding :: gostring
  hd_BlobContentLanguage :: gostring
  hd_BlobContentMD5 :: "int list"
  hd_BlobContentType :: gostring

record UploadStreamOptions =
  us_BufferSize :: int
  us_MaxBuffers :: int
  us_Metadata :: "(gostring \<times> gostring) list"
  us_HTTPHeaders :: BlobHTTPHeaders

text \<open>
  \<^verbatim>\<open>driver.WriterOptions\<close>. \<open>wo_Metadata\<close> is the Go map as the \<^verbatim>\<open>range\<close> loop visits it:
  its entries in some order, no key twice.
\<close>

record WriterOptions =
  wo_BufferSize :: int
  wo_MaxConcurrency :: int
  wo_CacheControl :: gostring
  wo_ContentDisposition :: gostring
  wo_ContentEncoding :: gostring
  wo_ContentLanguage :: gostring
  wo_ContentMD5 :: "int list"
  wo_Metadata :: "(gostring \<times> gostring) list"
  wo_BeforeWrite :: "(UploadStreamOptions \<Rightarrow> UploadStreamOptions \<times> error option) option"

text \<open>
  The writer (lines 843-851): its client, its upload options, whether the pipe \<^verbatim>\<open>w.w\<close>
  exists, and the background upload tasks started so far, each with the body handed to
  \<^verbatim>\<open>UploadStream\<close>.
\<close>

record writer =
  wr_client :: gostring
  wr_uploadOpts :: UploadStreamOptions
  wr_w :: bool
  wr_uploads :: "backend_call list"

text \<open>
  What \<^verbatim>\<open>NewTypedWriter\<close> takes from outside: the error of \<^verbatim>\<open>NewBlockBlobClient\<close> for an
  escaped key, \<^verbatim>\<open>escape.URLEscape\<close> for the metadata values, and the quoting of \<^verbatim>\<open>%q\<close>.
\<close>

record write_env =
  write_NewBlockBlobClient :: "gostring \<Rightarrow> error option"
  write_URLEscape :: "gostring \<Rightarrow> gostring"
  write_Quote :: "gostring \<Rightarrow> gostring"

text \<open>The callback that escapes a metadata key (lines 900-911).\<close>

definition shouldEscapeMetadataKey :: "rune list \<Rightarrow> nat \<Rightarrow> bool" where
  "shouldEscapeMetadataKey runes' i =
     (let c = runes' ! i in
      if i = 0 \<and> c \<ge> 48 \<and> c \<le> 57 then True
      else if IsASCIIAlphanumeric c then False
      else if c = 95 then False
      else True)"

definition escapeMetadataKey :: "gostring \<Rightarrow> gostring" where
  "escapeMetadataKey k = HexEscape k shouldEscapeMetadataKey"

text \<open>
  The error of line 913,
  \<^verbatim>\<open>fmt.Errorf("duplicate keys after escaping: %q => %q", k, e)\<close>.
\<close>

definition duplicate_keys_error :: "write_env \<Rightarrow> gostring \<Rightarrow> gostring \<Rightarrow> error" where
  "duplicate_keys_error env k e =
     PlainError (runes ''duplicate keys after escaping: '' @ write_Quote env k
                   @ runes '' => '' @ write_Quote env e)"

text \<open>
  The loop over \<^verbatim>\<open>opts.Metadata\<close> (lines 896-916): the entries still to visit, and the map
  \<open>md\<close> built so far, as the list of its entries.
\<close>

fun escape_metadata ::
  "write_env \<Rightarrow> (gostring \<times> gostring) list \<Rightarrow> (gostring \<times> gostring) list
   \<Rightarrow> error + (gostring \<times> gostring) list" where
  "escape_metadata env [] md = Inr md"
| "escape_metadata env ((k, v) # kvs) md =
     (let e = escapeMetadataKey k in
      if map_of md e \<noteq> None then
        Inl (duplicate_keys_error env k e)
      else escape_metadata env kvs (md @ [(e, write_URLEscape env v)]))"

text \<open>
  \<^verbatim>\<open>(b *bucket) NewTypedWriter\<close> (lines 883-949), with the calls made. The defaults that
  lines 889-894 store into \<open>opts\<close> are the values the upload options get.
\<close>

definition NewTypedWriter ::
  "write_env \<Rightarrow> gostring \<Rightarrow> gostring \<Rightarrow> WriterOptions \<Rightarrow> backend_call list \<times> (error + writer)"
  where
  "NewTypedWriter env key contentType opts =
     (let key' = escapeKey key False in
      case write_NewBlockBlobClient env key' of
        Some err \<Rightarrow> ([NewBlockBlobClient key'], Inl err)
      | None \<Rightarrow>
          (let bufferSize =
                 (if wo_BufferSize opts = 0 then defaultUploadBlockSize else wo_BufferSize opts);
               maxConcurrency =
                 (if wo_MaxConcurrency opts = 0 then defaultUploadBuffers
                  else wo_MaxConcurrency opts)
           in case escape_metadata env (wo_Metadata opts) [] of
                Inl err \<Rightarrow> ([NewBlockBlobClient key'], Inl err)
              | Inr md \<Rightarrow>
                  (let uploadOpts0 =
                         \<lparr>us_BufferSize = bufferSize, us_MaxBuffers = maxConcurrency,
                          us_Metadata = md,
                          us_HTTPHeaders =
                            \<lparr>hd_BlobCacheControl = wo_CacheControl opts,
                             hd_BlobContentDisposition = wo_ContentDisposition opts,
                             hd_BlobContentEncoding = wo_ContentEncoding opts,
                             hd_BlobContentLanguage = wo_ContentLanguage opts,
                             hd_BlobContentMD5 = wo_ContentMD5 opts,
                             hd_BlobContentType = contentType\<rparr>\<rparr>
                   in case (case wo_BeforeWrite opts of
                              None \<Rightarrow> (uploadOpts0, None)
                            | Some hook \<Rightarrow> hook uploadOpts0)
                      of (uploadOpts, Some err) \<Rightarrow> ([NewBlockBlobClient key'], Inl err)
                       | (uploadOpts, None) \<Rightarrow>
                           ([NewBlockBlobClient key'],
                            Inr \<lparr>wr_client = key', wr_uploadOpts = uploadOpts, wr_w = False,
                                 wr_uploads = []\<rparr>))))"

text \<open>
  What the writer takes from outside: the result of \<^verbatim>\<open>w.w.Write(p)\<close> on the pipe, the
  result of \<^verbatim>\<open>w.w.Close()\<close>, and \<^verbatim>\<open>w.err\<close> as the upload task leaves it when it closes
  \<^verbatim>\<open>w.donec\<close>.
\<close>

record pipe_env =
  pipe_Write :: "int list \<Rightarrow> int \<times> error option"
  pipe_Close :: "error option"
  upload_err :: "error option"

text \<open>
  \<^verbatim>\<open>(w *writer) open\<close> (lines 966-985): it starts the upload task, whose body is
  \<^verbatim>\<open>http.NoBody\<close> when \<open>pr\<close> is nil (\<open>False\<close>), and returns nil.
\<close>

definition writer_open :: "bool \<Rightarrow> writer \<Rightarrow> error option \<times> writer" where
  "writer_open pr w =
     (None, w\<lparr>wr_uploads := wr_uploads w @ [UploadStream (if pr then PipeBody else NoBody)]\<rparr>)"

text \<open>\<^verbatim>\<open>(w *writer) Write\<close> (lines 952-964).\<close>

definition Write :: "pipe_env \<Rightarrow> int list \<Rightarrow> writer \<Rightarrow> (int \<times> error option) \<times> writer" where
  "Write env p w =
     (if length p = 0 then ((0, None), w)
      else if \<not> wr_w w then
        (case writer_open True (w\<lparr>wr_w := True\<rparr>) of
           (Some err, w') \<Rightarrow> ((0, Some err), w')
         | (None, w') \<Rightarrow> (pipe_Write env p, w'))
      else (pipe_Write env p, w))"

text \<open>\<^verbatim>\<open>(w *writer) Close\<close> (lines 990-998).\<close>

definition Close :: "pipe_env \<Rightarrow> writer \<Rightarrow> error option \<times> writer" where
  "Close env w =
     (if \<not> wr_w w then (upload_err env, snd (writer_open False w))
      else (case pipe_Close env of
              Some err \<Rightarrow> (Some err, w)
            | None \<Rightarrow> (upload_err env, w)))"

section \<open>The hex escaper: markers are read back\<close>

lemma digit_val_hex_digit: "0 \<le> d \<Longrightarrow> d < 16 \<Longrightarrow> digit_val (hex_digit d) = Some d"
  by (simp add: digit_val_def hex_digit_def)

lemma hex_digit_not_underscore: "0 \<le> d \<Longrightarrow> d < 16 \<Longrightarrow> hex_digit d \<noteq> 95"
  by (simp add: hex_digit_def)

lemma parse_digits_append:
  "parse_digits acc (xs @ ys) =
     (case parse_digits acc xs of None \<Rightarrow> None | Some a \<Rightarrow> parse_digits a ys)"
  by (induction xs arbitrary: acc) (auto split: option.splits)

lemma parse_digits_to_hex: "0 \<le> n \<Longrightarrow> parse_digits 0 (to_hex n) = Some n"
proof (induction n rule: to_hex.induct)
  case (1 n)
  show ?case
  proof (cases "n < 16")
    case True
    with 1 show ?thesis
      by (subst to_hex.simps) (simp add: digit_val_hex_digit)
  next
    case False
    with 1 have ih: "parse_digits 0 (to_hex (n div 16)) = Some (n div 16)" by simp
    have d: "digit_val (hex_digit (n mod 16)) = Some (n mod 16)"
      by (rule digit_val_hex_digit) simp_all
    from False show ?thesis
      by (subst to_hex.simps) (simp add: parse_digits_append ih d)
  qed
qed

lemma to_hex_nonempty: "to_hex n \<noteq> []"
  by (subst to_hex.simps) simp

lemma to_hex_no_underscore: "0 \<le> n \<Longrightarrow> 95 \<notin> set (to_hex n)"
proof (induction n rule: to_hex.induct)
  case (1 n)
  show ?case
  proof (cases "n < 16")
    case True
    with 1 show ?thesis
      by (subst to_hex.simps) (simp add: hex_digit_def)
  next
    case False
    with 1 have ih: "95 \<notin> set (to_hex (n div 16))" by simp
    have "hex_digit (n mod 16) \<noteq> 95"
      by (rule hex_digit_not_underscore) simp_all
    with False ih show ?thesis
      by (subst to_hex.simps) simp
  qed
qed

lemma parse_hex_to_hex:
  "0 \<le> r \<Longrightarrow> r \<le> 0x7FFFFFFF \<Longrightarrow> parse_hex (to_hex r) = Some r"
  by (simp add: parse_hex_def to_hex_nonempty parse_digits_to_hex)

lemma takeWhile_until:
  "x \<notin> set xs \<Longrightarrow> takeWhile (\<lambda>c. c \<noteq> x) (xs @ x # rest) = xs"
  by (induction xs) auto

lemma dropWhile_until:
  "x \<notin> set xs \<Longrightarrow> dropWhile (\<lambda>c. c \<noteq> x) (xs @ x # rest) = x # rest"
  by (induction xs) auto

lemma marker_Cons: "marker r = 95 # 95 # 48 # 120 # to_hex r @ [95, 95]"
  by (simp add: marker_def runes_def)

lemma unescape_marker:
  "0 \<le> r \<Longrightarrow> r \<le> 0x7FFFFFFF \<Longrightarrow>
   unescape (marker r @ rest) = Some (r, length (marker r))"
  by (simp add: unescape_def marker_Cons runes_def takeWhile_until dropWhile_until
      to_hex_no_underscore parse_hex_to_hex)

lemma unescape_loop_skip:
  "length xs = n \<Longrightarrow> unescape_loop n (xs @ ys) = unescape_loop 0 ys"
  by (induction xs arbitrary: n) auto

lemma unescape_loop_marker:
  assumes "0 \<le> r" "r \<le> 0x7FFFFFFF"
  shows "unescape_loop 0 (marker r @ rest) = r # unescape_loop 0 rest"
proof -
  define t where "t = 95 # 48 # 120 # to_hex r @ [95, 95]"
  have m: "marker r = 95 # t" by (simp add: marker_Cons t_def)
  have u: "unescape (95 # t @ rest) = Some (r, Suc (length t))"
    using unescape_marker [OF assms, of rest] by (simp add: m)
  have "unescape_loop 0 (95 # t @ rest) = r # unescape_loop (length t) (t @ rest)"
    by (simp add: u)
  also have "unescape_loop (length t) (t @ rest) = unescape_loop 0 rest"
    by (rule unescape_loop_skip) simp
  finally show ?thesis by (simp add: m)
qed

section \<open>The hex escaper: no marker is read where none was written\<close>

lemma escape_flags_Cons:
  "escape_flags (b # bs) (c # cs) = (if b then marker c else [c]) @ escape_flags bs cs"
  by (simp add: escape_flags_def)

lemma take4_Cons: "take 4 (x # xs) = x # take 3 xs"
  by (simp add: take_Cons')

lemma take3_Cons: "take 3 (x # xs) = x # take 2 xs"
  by (simp add: take_Cons')

lemma take2_Cons: "take 2 (x # xs) = x # take 1 xs"
  by (simp add: take_Cons')

text \<open>
  If the escaped text reads \<^verbatim>\<open>__0x\<close> at a rune that was left as it is, then the key reads
  \<^verbatim>\<open>__0x\<close> there: a marker that follows starts with two underscores, so it cannot supply
  the \<^verbatim>\<open>0\<close> or the \<^verbatim>\<open>x\<close>.
\<close>

lemma no_marker_start:
  assumes eq: "take 4 (c # escape_flags bs cs) = runes ''__0x''"
    and len: "length bs = length cs"
  shows "take 4 (c # cs) = runes ''__0x''"
proof -
  from eq len obtain b1 bs1 c1 cs1
    where 1: "bs = b1 # bs1" "cs = c1 # cs1" "length bs1 = length cs1"
    by (cases bs; cases cs) (auto simp: escape_flags_def runes_def take4_Cons)
  from eq have e1: "take 2 (escape_flags bs1 cs1) = [48, 120]" and c: "c = 95" "c1 = 95"
    by (auto simp: 1 escape_flags_Cons marker_Cons runes_def take4_Cons take3_Cons
        split: if_splits)
  from e1 1 obtain b2 bs2 c2 cs2
    where 2: "bs1 = b2 # bs2" "cs1 = c2 # cs2" "length bs2 = length cs2"
    by (cases bs1; cases cs1) (auto simp: escape_flags_def)
  from e1 have e2: "take 1 (escape_flags bs2 cs2) = [120]" and c2: "c2 = 48"
    by (auto simp: 2 escape_flags_Cons marker_Cons take2_Cons split: if_splits)
  from e2 2 obtain b3 bs3 c3 cs3
    where 3: "bs2 = b3 # bs3" "cs2 = c3 # cs3"
    by (cases bs2; cases cs2) (auto simp: escape_flags_def)
  from e2 have "c3 = 120"
    by (auto simp: 3 escape_flags_Cons marker_Cons split: if_splits)
  then show ?thesis
    by (simp add: 1 2 3 c c2 runes_def take4_Cons take3_Cons take2_Cons)
qed

lemma unescape_loop_escape_flags:
  "length bs = length s \<Longrightarrow> marker_free s \<Longrightarrow>
   list_all (\<lambda>r. 0 \<le> r \<and> r \<le> 0x7FFFFFFF) s \<Longrightarrow>
   unescape_loop 0 (escape_flags bs s) = s"
proof (induction s arbitrary: bs)
  case Nil
  then show ?case by (simp add: escape_flags_def)
next
  case (Cons c cs)
  then obtain b bs' where bs: "bs = b # bs'" and len: "length bs' = length cs"
    by (cases bs) auto
  from Cons.prems have free: "marker_free cs"
    and rng: "list_all (\<lambda>r. 0 \<le> r \<and> r \<le> 0x7FFFFFFF) cs"
    and c: "0 \<le> c" "c \<le> 0x7FFFFFFF"
    and nostart: "take 4 (c # cs) \<noteq> runes ''__0x''"
    by simp_all
  have ih: "unescape_loop 0 (escape_flags bs' cs) = cs"
    using Cons.IH [OF len free rng] .
  show ?case
  proof (cases b)
    case True
    then show ?thesis
      by (simp add: bs escape_flags_Cons unescape_loop_marker [OF c] ih)
  next
    case False
    have "take 4 (c # escape_flags bs' cs) \<noteq> runes ''__0x''"
      using no_marker_start [OF _ len] nostart by blast
    then have "unescape (c # escape_flags bs' cs) = None"
      by (simp add: unescape_def)
    with False show ?thesis
      by (simp add: bs escape_flags_Cons ih)
  qed
qed

lemma HexEscape_flags: "HexEscape s f = escape_flags (map (f s) [0..<length s]) s"
proof -
  have "map2 (\<lambda>b c. if b then marker c else [c]) (map (f s) [0..<length s]) s
        = map (\<lambda>i. if f s i then marker (s ! i) else [s ! i]) [0..<length s]"
    by (rule nth_equalityI) simp_all
  then show ?thesis by (simp add: HexEscape_def escape_flags_def)
qed

lemma utf8_string_range:
  "utf8_string s \<Longrightarrow> list_all (\<lambda>r. 0 \<le> r \<and> r \<le> 0x7FFFFFFF) s"
  by (induction s) (auto simp: utf8_string_def valid_rune_def)

lemma string_of_runes_utf8: "utf8_string s \<Longrightarrow> string_of_runes s = s"
  by (induction s) (auto simp: utf8_string_def string_of_runes_def)

text \<open>
  Whatever the callback selects: a UTF-8 string in which \<^verbatim>\<open>__0x\<close> does not occur is
  read back from its escaped form.
\<close>

lemma HexUnescape_HexEscape:
  "utf8_string s \<Longrightarrow> marker_free s \<Longrightarrow> HexUnescape (HexEscape s f) = s"
  by (simp add: HexUnescape_def HexEscape_flags unescape_loop_escape_flags utf8_string_range
      string_of_runes_utf8)

section \<open>Claims on the key escaper\<close>

text \<open>
  C1, as stated, fails: the key \<^verbatim>\<open>__0x2f__\<close> is a UTF-8 string in which nothing is
  escaped, and unescaping reads it as the marker of \<^verbatim>\<open>/\<close>.
\<close>

theorem C1_roundtrip_counterexample:
  "utf8_string (runes ''__0x2f__'') \<and>
   unescapeKey (escapeKey (runes ''__0x2f__'') False) \<noteq> runes ''__0x2f__''"
  by code_simp

text \<open>
  C1, amended: for every key \<open>k\<close> that is a UTF-8 string in which the four characters
  \<^verbatim>\<open>__0x\<close> do not occur, and for either value of \<open>isPrefix\<close>,
  \<^verbatim>\<open>unescapeKey(escapeKey(k, isPrefix)) == k\<close>.
\<close>

theorem C1_roundtrip:
  "utf8_string k \<Longrightarrow> marker_free k \<Longrightarrow> unescapeKey (escapeKey k isPrefix) = k"
  by (simp add: unescapeKey_def escapeKey_def HexUnescape_HexEscape)

text \<open>
  C1, witness: the key made of \<open>a\<close>, a backslash, \<^verbatim>\<open>b/../\<close>, U+00E9 and \<^verbatim>\<open>/\<close>, in which the
  backslash and the slash of \<^verbatim>\<open>../\<close> are escaped.
\<close>

theorem C1_roundtrip_witness:
  "utf8_string [97, 92, 98, 47, 46, 46, 47, 0xE9, 47] \<and>
   marker_free [97, 92, 98, 47, 46, 46, 47, 0xE9, 47] \<and>
   escapeKey [97, 92, 98, 47, 46, 46, 47, 0xE9, 47] False
     = runes ''a__0x5c__b/..__0x2f__'' @ [0xE9, 47] \<and>
   unescapeKey (escapeKey [97, 92, 98, 47, 46, 46, 47, 0xE9, 47] False)
     = [97, 92, 98, 47, 46, 46, 47, 0xE9, 47]"
proof -
  have u: "utf8_string [97, 92, 98, 47, 46, 46, 47, 0xE9, 47]" by code_simp
  have f: "marker_free [97, 92, 98, 47, 46, 46, 47, 0xE9, 47]" by code_simp
  have e: "escapeKey [97, 92, 98, 47, 46, 46, 47, 0xE9, 47] False
             = runes ''a__0x5c__b/..__0x2f__'' @ [0xE9, 47]" by code_simp
  from u f e C1_roundtrip [OF u f, of False] show ?thesis by simp
qed

text \<open>
  C2, as stated, fails: the key that is one backslash and the eight-character key
  \<^verbatim>\<open>__0x5c__\<close> are distinct and have the same escaped form.
\<close>

theorem C2_injective_counterexample:
  "[92] \<noteq> runes ''__0x5c__'' \<and> utf8_string [92] \<and> utf8_string (runes ''__0x5c__'') \<and>
   escapeKey [92] False = escapeKey (runes ''__0x5c__'') False"
  by code_simp

text \<open>
  C2, amended: for every pair of distinct keys \<open>k1\<close>, \<open>k2\<close> that are UTF-8 strings in which
  \<^verbatim>\<open>__0x\<close> does not occur, and every boolean \<open>isPrefix\<close>,
  \<^verbatim>\<open>escapeKey(k1, isPrefix) != escapeKey(k2, isPrefix)\<close>.
\<close>

theorem C2_injective:
  assumes "utf8_string k1" "marker_free k1" "utf8_string k2" "marker_free k2" "k1 \<noteq> k2"
  shows "escapeKey k1 isPrefix \<noteq> escapeKey k2 isPrefix"
proof
  assume eq: "escapeKey k1 isPrefix = escapeKey k2 isPrefix"
  have "k1 = HexUnescape (escapeKey k1 isPrefix)"
    using assms(1,2) by (simp add: escapeKey_def HexUnescape_HexEscape)
  also have "\<dots> = HexUnescape (escapeKey k2 isPrefix)"
    by (simp only: eq)
  also have "\<dots> = k2"
    using assms(3,4) by (simp add: escapeKey_def HexUnescape_HexEscape)
  finally show False using assms(5) by simp
qed

text \<open>C2, witness: the keys \<^verbatim>\<open>a/\<close> and \<^verbatim>\<open>a\<close>, as full keys.\<close>

theorem C2_injective_witness:
  "utf8_string (runes ''a/'') \<and> marker_free (runes ''a/'') \<and>
   utf8_string (runes ''a'') \<and> marker_free (runes ''a'') \<and> runes ''a/'' \<noteq> runes ''a'' \<and>
   escapeKey (runes ''a/'') False \<noteq> escapeKey (runes ''a'') False"
proof -
  have u1: "utf8_string (runes ''a/'')" by code_simp
  have f1: "marker_free (runes ''a/'')" by code_simp
  have u2: "utf8_string (runes ''a'')" by code_simp
  have f2: "marker_free (runes ''a'')" by code_simp
  have ne: "runes ''a/'' \<noteq> runes ''a''" by code_simp
  from u1 f1 u2 f2 ne C2_injective [OF u1 f1 u2 f2 ne, of False] show ?thesis by simp
qed

section \<open>The trailing slash\<close>

lemma length_utf8_rune: "1 \<le> length (utf8_rune r)"
  by (simp add: utf8_rune_def)

lemma len_append: "len (a @ b) = len a + len b"
  by (simp add: len_def bytes_of_def)

lemma len_ge_length: "length s \<le> len s"
proof (induction s)
  case Nil
  show ?case by (simp add: len_def bytes_of_def)
next
  case (Cons r s)
  have "len (r # s) = length (utf8_rune r) + len s"
    by (simp add: len_def bytes_of_def)
  with Cons length_utf8_rune [of r] show ?case by simp
qed

lemma len_single_slash: "len [47] = 1"
  by (simp add: len_def bytes_of_def utf8_rune_def)

lemma marker_slash: "marker 47 = runes ''__0x2f__''"
  by (simp add: marker_def runes_def to_hex.simps hex_digit_def)

text \<open>
  Before the last rune, the callback of \<^verbatim>\<open>escapeKey\<close> decides as it does for the key
  without that rune taken as a prefix: the third case needs the index \<^verbatim>\<open>len(key)-1\<close>, which
  no earlier rune has.
\<close>

lemma shouldEscapeKey_init:
  assumes "i < length a"
  shows "shouldEscapeKey (a @ [c]) p (a @ [c]) i = shouldEscapeKey a True a i"
proof -
  have "length a + 1 \<le> len (a @ [c])"
    using len_ge_length [of "a @ [c]"] by simp
  with assms have "int i \<noteq> int (len (a @ [c])) - 1" by linarith
  moreover from assms have "i - 1 < length a" "i - 2 < length a" by simp_all
  with assms have "(a @ [c]) ! i = a ! i" "(a @ [c]) ! (i - 1) = a ! (i - 1)"
    "(a @ [c]) ! (i - 2) = a ! (i - 2)"
    by (simp_all only: nth_append if_True)
  ultimately show ?thesis
    by (simp add: shouldEscapeKey_def)
qed

lemma HexEscape_snoc:
  "HexEscape (a @ [c]) f =
     concat (map (\<lambda>i. if f (a @ [c]) i then marker (a ! i) else [a ! i]) [0..<length a])
     @ (if f (a @ [c]) (length a) then marker c else [c])"
proof -
  have eq: "map (\<lambda>i. if f (a @ [c]) i then marker ((a @ [c]) ! i) else [(a @ [c]) ! i])
              [0..<length a]
            = map (\<lambda>i. if f (a @ [c]) i then marker (a ! i) else [a ! i]) [0..<length a]"
    by (rule map_cong) (simp_all add: nth_append)
  show ?thesis
    by (simp add: HexEscape_def eq)
qed

lemma escapeKey_snoc:
  "escapeKey (a @ [c]) p =
     escapeKey a True
     @ (if shouldEscapeKey (a @ [c]) p (a @ [c]) (length a) then marker c else [c])"
proof -
  have eq: "map (\<lambda>i. if shouldEscapeKey (a @ [c]) p (a @ [c]) i then marker (a ! i)
                      else [a ! i]) [0..<length a]
            = map (\<lambda>i. if shouldEscapeKey a True a i then marker (a ! i) else [a ! i])
                [0..<length a]"
    by (rule map_cong) (simp_all add: shouldEscapeKey_init)
  have "escapeKey a True
        = concat (map (\<lambda>i. if shouldEscapeKey a True a i then marker (a ! i) else [a ! i])
                    [0..<length a])"
    by (simp add: escapeKey_def HexEscape_def)
  then show ?thesis
    by (simp add: escapeKey_def HexEscape_snoc eq)
qed

text \<open>
  What \<^verbatim>\<open>escapeKey\<close> does with the trailing slash of a full key: it is escaped when the
  byte length of the rest equals its number of runes, or when the rest ends in two dots;
  otherwise it stays.
\<close>

lemma escapeKey_trailing_slash:
  "escapeKey (a @ [47]) False =
     escapeKey a True
     @ (if len a = length a \<or> (length a > 1 \<and> a ! (length a - 1) = 46 \<and> a ! (length a - 2) = 46)
        then runes ''__0x2f__'' else [47])"
proof -
  have "shouldEscapeKey (a @ [47]) False (a @ [47]) (length a)
        \<longleftrightarrow> len a = length a \<or> (length a > 1 \<and> a ! (length a - 1) = 46 \<and> a ! (length a - 2) = 46)"
    by (auto simp: shouldEscapeKey_def len_append len_single_slash nth_append)
  then show ?thesis
    by (simp add: escapeKey_snoc marker_slash)
qed

lemma shouldEscapeKey_prefix_mono:
  "shouldEscapeKey key True r i \<Longrightarrow> shouldEscapeKey key False r i"
  by (auto simp: shouldEscapeKey_def Let_def split: if_splits)

lemma shouldEscapeKey_only_slash:
  "shouldEscapeKey key False r i \<Longrightarrow> \<not> shouldEscapeKey key True r i \<Longrightarrow> r ! i = 47"
  by (auto simp: shouldEscapeKey_def Let_def split: if_splits)

text \<open>
  A full key that ends in a slash and the same key without that slash never have the same
  escaped form, whether the trailing slash is escaped or not.
\<close>

lemma escapeKey_slash_differs: "escapeKey (k @ [47]) False \<noteq> escapeKey k False"
proof (cases k rule: rev_cases)
  case Nil
  have "escapeKey [] False = []" by (simp add: escapeKey_def HexEscape_def)
  moreover have "escapeKey ([] @ [47]) False \<noteq> []"
    by (simp only: escapeKey_snoc) (simp add: marker_Cons)
  ultimately show ?thesis by (simp add: Nil)
next
  case (snoc a c)
  define X where
    "X = (if shouldEscapeKey (k @ [47]) False (k @ [47]) (length k) then marker 47 else [47])"
  define sF where "sF = shouldEscapeKey (a @ [c]) False (a @ [c]) (length a)"
  define sT where "sT = shouldEscapeKey (a @ [c]) True (a @ [c]) (length a)"
  have X: "X \<noteq> []" by (simp add: X_def marker_Cons)
  have l: "escapeKey (k @ [47]) False
           = escapeKey a True @ (if sT then marker c else [c]) @ X"
    by (simp add: escapeKey_snoc [of k] X_def) (simp add: snoc escapeKey_snoc [of a] sT_def)
  have r: "escapeKey k False = escapeKey a True @ (if sF then marker c else [c])"
    by (simp add: snoc escapeKey_snoc [of a] sF_def)
  show ?thesis
  proof
    assume "escapeKey (k @ [47]) False = escapeKey k False"
    with l r have eq: "(if sT then marker c else [c]) @ X = (if sF then marker c else [c])"
      by simp
    show False
    proof (cases "sT = sF")
      case True
      with eq X show False by (simp split: if_splits)
    next
      case False
      have "sT \<longrightarrow> sF"
        unfolding sT_def sF_def using shouldEscapeKey_prefix_mono by blast
      with False have s: "sF" "\<not> sT" by auto
      then have "(a @ [c]) ! length a = 47"
        unfolding sT_def sF_def by (rule shouldEscapeKey_only_slash)
      then have "c = 47" by simp
      with eq s show False by (simp add: marker_Cons)
    qed
  qed
qed

section \<open>Claim on the trailing slash\<close>

text \<open>
  C3, as the code has it: the claim fails. \<open>k\<close> is a full key without its trailing slash.
  \<^verbatim>\<open>escapeKey\<close> escapes the trailing \<^verbatim>\<open>/\<close> of \<open>k\<close> followed by \<^verbatim>\<open>/\<close> (replaces it by the
  marker \<^verbatim>\<open>__0x2f__\<close>) when the byte length of \<open>k\<close> equals its number of runes, that is when
  \<open>k\<close> holds no multi-byte code point, or when \<open>k\<close> ends in two dots. For every other key,
  that is whenever a multi-byte code point stands before the trailing \<^verbatim>\<open>/\<close> and the key does
  not end in \<^verbatim>\<open>../\<close>, the trailing \<^verbatim>\<open>/\<close> is left as it is: line 867 compares the rune index
  with the byte length \<^verbatim>\<open>len(key)-1\<close>.
\<close>

theorem C3_trailing_slash:
  "(len k = length k \<or> (length k > 1 \<and> k ! (length k - 1) = 46 \<and> k ! (length k - 2) = 46)
    \<longrightarrow> escapeKey (k @ [47]) False = escapeKey k True @ runes ''__0x2f__'') \<and>
   (len k \<noteq> length k \<and> \<not> (length k > 1 \<and> k ! (length k - 1) = 46 \<and> k ! (length k - 2) = 46)
    \<longrightarrow> escapeKey (k @ [47]) False = escapeKey k True @ [47])"
  by (simp add: escapeKey_trailing_slash)

text \<open>
  C3, witness, where the claim fails: the key made of U+00E9 and \<^verbatim>\<open>/\<close> has 3 bytes and 2
  runes, and \<^verbatim>\<open>escapeKey\<close> returns it unchanged, its trailing \<^verbatim>\<open>/\<close> not escaped; the key
  \<^verbatim>\<open>dir/sub/\<close> of single-byte code points has its trailing \<^verbatim>\<open>/\<close> escaped.
\<close>

theorem C3_trailing_slash_witness:
  "len ([0xE9] @ [47]) = 3 \<and> length ([0xE9] @ [47] :: gostring) = 2 \<and>
   escapeKey ([0xE9] @ [47]) False = [0xE9, 47] \<and>
   escapeKey (runes ''dir/sub'' @ [47]) False = runes ''dir/sub__0x2f__''"
proof -
  have l: "len ([0xE9] @ [47]) = 3 \<and> length ([0xE9] @ [47] :: gostring) = 2" by code_simp
  have h1: "len [0xE9] \<noteq> length [0xE9 :: rune] \<and>
            \<not> (length [0xE9 :: rune] > 1 \<and> [0xE9 :: rune] ! (length [0xE9 :: rune] - 1) = 46 \<and>
               [0xE9 :: rune] ! (length [0xE9 :: rune] - 2) = 46)"
    by code_simp
  have h2: "len (runes ''dir/sub'') = length (runes ''dir/sub'')" by code_simp
  have t1: "escapeKey [0xE9] True @ [47] = [0xE9, 47]" by code_simp
  have t2: "escapeKey (runes ''dir/sub'') True @ runes ''__0x2f__'' = runes ''dir/sub__0x2f__''"
    by code_simp
  from C3_trailing_slash [of "[0xE9]"] h1
  have "escapeKey ([0xE9] @ [47]) False = escapeKey [0xE9] True @ [47]"
    by blast
  with t1 have 1: "escapeKey ([0xE9] @ [47]) False = [0xE9, 47]"
    by (simp only:)
  from C3_trailing_slash [of "runes ''dir/sub''"] h2
  have "escapeKey (runes ''dir/sub'' @ [47]) False
        = escapeKey (runes ''dir/sub'') True @ runes ''__0x2f__''"
    by blast
  with t2 have 2: "escapeKey (runes ''dir/sub'' @ [47]) False = runes ''dir/sub__0x2f__''"
    by (simp only:)
  from l 1 2 show ?thesis by blast
qed

section \<open>Claim on the error classifier\<close>

lemma ErrorCode_structured:
  "structured err = Some (code, status) \<Longrightarrow>
   ErrorCode err =
     (if code = StorageErrorCodeBlobNotFound \<or> status = 404 then NotFound
      else if code = StorageErrorCodeAuthenticationFailed then PermissionDenied
      else Unknown)"
  by (auto simp: ErrorCode_def structured_def split: option.splits)

lemma ErrorCode_unstructured:
  "structured err = None \<Longrightarrow>
   ErrorCode err =
     (if strings_Contains (error_text err) (runes ''no such host'') then NotFound else Unknown)"
  by (auto simp: ErrorCode_def structured_def split: option.splits)

text \<open>
  C4: \<^verbatim>\<open>ErrorCode\<close> classifies every error as follows, the clauses read in the order of the
  claim. An error that carries the structured code \<^verbatim>\<open>BlobNotFound\<close> or the HTTP status 404
  is \<open>NotFound\<close>; otherwise one that carries the structured code \<^verbatim>\<open>AuthenticationFailed\<close> is
  \<open>PermissionDenied\<close>; an error without structured code and status whose text contains
  \<^verbatim>\<open>no such host\<close> is \<open>NotFound\<close>; every other error is \<open>Unknown\<close>. The text is looked at only
  when the error carries no structured code: the first, second and fourth clause hold
  whatever the text is.
\<close>

theorem C4_ErrorCode:
  "(structured err = Some (code, status) \<and>
      (code = StorageErrorCodeBlobNotFound \<or> status = 404)
    \<longrightarrow> ErrorCode err = NotFound) \<and>
   (structured err = Some (code, status) \<and> status \<noteq> 404 \<and>
      code = StorageErrorCodeAuthenticationFailed
    \<longrightarrow> ErrorCode err = PermissionDenied) \<and>
   (structured err = None \<and> strings_Contains (error_text err) (runes ''no such host'')
    \<longrightarrow> ErrorCode err = NotFound) \<and>
   (structured err = Some (code, status) \<and> status \<noteq> 404 \<and>
      code \<noteq> StorageErrorCodeBlobNotFound \<and> code \<noteq> StorageErrorCodeAuthenticationFailed
    \<longrightarrow> ErrorCode err = Unknown) \<and>
   (structured err = None \<and> \<not> strings_Contains (error_text err) (runes ''no such host'')
    \<longrightarrow> ErrorCode err = Unknown)"
proof -
  have ne: "StorageErrorCodeAuthenticationFailed \<noteq> StorageErrorCodeBlobNotFound"
    by (simp add: StorageErrorCodeAuthenticationFailed_def StorageErrorCodeBlobNotFound_def
        runes_def)
  show ?thesis
    using ne by (auto simp: ErrorCode_structured ErrorCode_unstructured)
qed

text \<open>
  C4, witness: a wrapped \<^verbatim>\<open>StorageError\<close> with code \<^verbatim>\<open>BlobNotFound\<close>; a \<^verbatim>\<open>ResponseError\<close>
  with status 404; a \<^verbatim>\<open>StorageError\<close> with code \<^verbatim>\<open>AuthenticationFailed\<close> and status 403; a
  plain error whose text contains \<^verbatim>\<open>no such host\<close>; a \<^verbatim>\<open>StorageError\<close> with another code and
  status 500 whose text contains \<^verbatim>\<open>no such host\<close>; and a plain error with another text.
\<close>

theorem C4_ErrorCode_witness:
  "ErrorCode (WrapError (runes ''blob: gone'')
               (StorageError (runes ''BlobNotFound'') 409 (runes ''gone''))) = NotFound \<and>
   ErrorCode (ResponseError (runes ''ContainerNotFound'') 404 (runes ''missing'')) = NotFound \<and>
   ErrorCode (StorageError (runes ''AuthenticationFailed'') 403 (runes ''denied''))
     = PermissionDenied \<and>
   ErrorCode (PlainError (runes ''dial tcp: lookup x.blob.core.windows.net: no such host''))
     = NotFound \<and>
   ErrorCode (StorageError (runes ''ServerBusy'') 500 (runes ''no such host'')) = Unknown \<and>
   ErrorCode (PlainError (runes ''connection reset'')) = Unknown"
proof -
  let ?e1 = "WrapError (runes ''blob: gone'')
               (StorageError (runes ''BlobNotFound'') 409 (runes ''gone''))"
  let ?e2 = "ResponseError (runes ''ContainerNotFound'') 404 (runes ''missing'')"
  let ?e3 = "StorageError (runes ''AuthenticationFailed'') 403 (runes ''denied'')"
  let ?e4 = "PlainError (runes ''dial tcp: lookup x.blob.core.windows.net: no such host'')"
  let ?e5 = "StorageError (runes ''ServerBusy'') 500 (runes ''no such host'')"
  let ?e6 = "PlainError (runes ''connection reset'')"
  have h1: "structured ?e1 = Some (runes ''BlobNotFound'', 409) \<and>
            (runes ''BlobNotFound'' = StorageErrorCodeBlobNotFound \<or> (409::int) = 404)"
    by code_simp
  have h2: "structured ?e2 = Some (runes ''ContainerNotFound'', 404) \<and>
            (runes ''ContainerNotFound'' = StorageErrorCodeBlobNotFound \<or> (404::int) = 404)"
    by code_simp
  have h3: "structured ?e3 = Some (runes ''AuthenticationFailed'', 403) \<and> (403::int) \<noteq> 404 \<and>
            runes ''AuthenticationFailed'' = StorageErrorCodeAuthenticationFailed"
    by code_simp
  have h4: "structured ?e4 = None \<and>
            strings_Contains (error_text ?e4) (runes ''no such host'')"
    by code_simp
  have h5: "structured ?e5 = Some (runes ''ServerBusy'', 500) \<and> (500::int) \<noteq> 404 \<and>
            runes ''ServerBusy'' \<noteq> StorageErrorCodeBlobNotFound \<and>
            runes ''ServerBusy'' \<noteq> StorageErrorCodeAuthenticationFailed"
    by code_simp
  have h6: "structured ?e6 = None \<and>
            \<not> strings_Contains (error_text ?e6) (runes ''no such host'')"
    by code_simp
  from h1 C4_ErrorCode [of ?e1 "runes ''BlobNotFound''" 409]
  have 1: "ErrorCode ?e1 = NotFound" by blast
  from h2 C4_ErrorCode [of ?e2 "runes ''ContainerNotFound''" 404]
  have 2: "ErrorCode ?e2 = NotFound" by blast
  from h3 C4_ErrorCode [of ?e3 "runes ''AuthenticationFailed''" 403]
  have 3: "ErrorCode ?e3 = PermissionDenied" by blast
  from h4 C4_ErrorCode [of ?e4]
  have 4: "ErrorCode ?e4 = NotFound" by blast
  from h5 C4_ErrorCode [of ?e5 "runes ''ServerBusy''" 500]
  have 5: "ErrorCode ?e5 = Unknown" by blast
  from h6 C4_ErrorCode [of ?e6]
  have 6: "ErrorCode ?e6 = Unknown" by blast
  from 1 2 3 4 5 6 show ?thesis by blast
qed

section \<open>Claim on the polling loop of Copy\<close>

text \<open>
  A failed poll that is tolerated (the context is not cancelled and it is not the third
  failure) goes on to line 509, which dereferences \<^verbatim>\<open>propertiesResp.CopyStatus\<close> of the
  failed call: when that pointer is nil, \<^verbatim>\<open>Copy\<close> panics.
\<close>

lemma copy_poll_tolerated_failure_nil:
  assumes "poll_err p \<noteq> None" "poll_ctx_Err p = None" "nErrors + 1 \<noteq> 3"
    and "poll_CopyStatus p = None"
  shows "copy_poll nErrors CopyStatusTypePending (p # ps) = Panic"
  using assms by (simp add: Let_def)

text \<open>
  \<open>nErrors\<close> is never reset: with failed polls whose responses still carry the status
  \<^verbatim>\<open>pending\<close>, the third failure ends \<^verbatim>\<open>Copy\<close> although successful polls lie between the
  failures.
\<close>

lemma copy_poll_counts_all_failures:
  "copy_poll 0 CopyStatusTypePending
     [\<lparr>poll_CopyStatus = Some CopyStatusTypePending, poll_err = Some (PlainError (runes ''e1'')),
       poll_ctx_Err = None\<rparr>,
      \<lparr>poll_CopyStatus = Some CopyStatusTypePending, poll_err = None, poll_ctx_Err = None\<rparr>,
      \<lparr>poll_CopyStatus = Some CopyStatusTypePending, poll_err = Some (PlainError (runes ''e2'')),
       poll_ctx_Err = None\<rparr>,
      \<lparr>poll_CopyStatus = Some CopyStatusTypePending, poll_err = None, poll_ctx_Err = None\<rparr>,
      \<lparr>poll_CopyStatus = Some CopyStatusTypePending, poll_err = Some (PlainError (runes ''e3'')),
       poll_ctx_Err = None\<rparr>,
      \<lparr>poll_CopyStatus = Some CopyStatusTypeSuccess, poll_err = None, poll_ctx_Err = None\<rparr>]
   = Return (Some (PlainError (runes ''e3'')))"
  by code_simp

text \<open>
  C5, evaluated where it fails: the copy starts with status \<^verbatim>\<open>pending\<close>; the first poll
  fails, with the zero response (its \<^verbatim>\<open>CopyStatus\<close> is nil), and the context is not
  cancelled; the second poll would succeed with status \<^verbatim>\<open>success\<close>. \<^verbatim>\<open>Copy\<close> neither
  returns nil nor the error of the poll: it panics.
\<close>

theorem C5_Copy_single_failed_poll:
  "Copy \<lparr>copy_NewBlobClient = (\<lambda>key. None), copy_BeforeCopy = None,
         copy_StartCopyFromURL = (Some CopyStatusTypePending, None),
         copy_polls =
           [\<lparr>poll_CopyStatus = None, poll_err = Some (PlainError (runes ''timeout'')),
             poll_ctx_Err = None\<rparr>,
            \<lparr>poll_CopyStatus = Some CopyStatusTypeSuccess, poll_err = None,
             poll_ctx_Err = None\<rparr>]\<rparr>
      (runes ''dst'') (runes ''src'')
   = Panic"
  by code_simp

section \<open>Claim on ListPaged\<close>

lemma append_objects_Some:
  "append_objects f xs = Some objs \<Longrightarrow> objs = map (\<lambda>x. the (f x)) xs \<and> list_all (\<lambda>x. f x \<noteq> None) xs"
  by (induction xs arbitrary: objs) (auto split: option.splits)

lemma prefix_object_IsDir: "prefix_object bp = Some obj \<Longrightarrow> lobj_IsDir obj"
  by (auto simp: prefix_object_def split: option.splits)

lemma item_object_not_IsDir: "item_object bi = Some obj \<Longrightarrow> \<not> lobj_IsDir obj"
  by (auto simp: item_object_def split: option.splits)

lemma append_objects_prefix_IsDir:
  "append_objects prefix_object xs = Some objs \<Longrightarrow> list_all lobj_IsDir objs"
  by (induction xs arbitrary: objs) (auto split: option.splits dest: prefix_object_IsDir)

lemma append_objects_item_not_IsDir:
  "append_objects item_object xs = Some objs \<Longrightarrow> list_all (\<lambda>obj. \<not> lobj_IsDir obj) objs"
  by (induction xs arbitrary: objs) (auto split: option.splits dest: item_object_not_IsDir)

lemma append_objects_length:
  "append_objects f xs = Some objs \<Longrightarrow> length objs = length xs"
  by (induction xs arbitrary: objs) (auto split: option.splits)

lemma sorted_sort_Slice_by_Key:
  "sorted (map (\<lambda>obj. bytes_of (lobj_Key obj)) (sort_Slice_by_Key objs))"
  by (simp add: sort_Slice_by_Key_def)

lemma set_sort_Slice_by_Key: "set (sort_Slice_by_Key objs) = set objs"
  by (simp add: sort_Slice_by_Key_def)

text \<open>
  A page that holds a directory entry and an object entry comes from a segment with
  prefixes and items, and such a page has been sorted.
\<close>

lemma page_of_response_sorted:
  assumes ret: "page_of_response resp = Return (Inr page)"
    and dir: "\<exists>obj \<in> set (lp_Objects page). lobj_IsDir obj"
    and item: "\<exists>obj \<in> set (lp_Objects page). \<not> lobj_IsDir obj"
  shows "sorted (map (\<lambda>obj. bytes_of (lobj_Key obj)) (lp_Objects page))"
proof -
  from ret obtain segment dirs items
    where seg: "lr_Segment resp = Some segment"
      and d: "append_objects prefix_object (seg_BlobPrefixes segment) = Some dirs"
      and i: "append_objects item_object (seg_BlobItems segment) = Some items"
      and objs: "lp_Objects page =
                   (if length (seg_BlobPrefixes segment) > 0 \<and> length (seg_BlobItems segment) > 0
                    then sort_Slice_by_Key (dirs @ items) else dirs @ items)"
    by (auto simp: page_of_response_def Let_def split: option.splits)
  have set_objs: "set (lp_Objects page) = set dirs \<union> set items"
    by (simp add: objs set_sort_Slice_by_Key)
  have all_d: "\<forall>obj \<in> set dirs. lobj_IsDir obj"
    using append_objects_prefix_IsDir [OF d] by (simp add: list_all_iff)
  have all_i: "\<forall>obj \<in> set items. \<not> lobj_IsDir obj"
    using append_objects_item_not_IsDir [OF i] by (simp add: list_all_iff)
  from dir set_objs all_i have "dirs \<noteq> []" by auto
  then have "length (seg_BlobPrefixes segment) > 0"
    using append_objects_length [OF d] by auto
  moreover from item set_objs all_d have "items \<noteq> []" by auto
  then have "length (seg_BlobItems segment) > 0"
    using append_objects_length [OF i] by auto
  ultimately show ?thesis
    by (simp add: objs sorted_sort_Slice_by_Key)
qed

lemma ListPaged_Return:
  "snd (ListPaged backend opts) = Return (Inr page) \<Longrightarrow>
   \<exists>resp. page_of_response resp = Return (Inr page)"
  by (auto simp: ListPaged_def Let_def split: option.splits prod.splits sum.splits)

lemma list_request_default:
  "lo_PageSize opts = 0 \<Longrightarrow> sint (az_MaxResults (list_request opts)) = 1000"
  by (simp add: list_request_def defaultPageSize_def)

lemma mset_sort_Slice_by_Key: "mset (sort_Slice_by_Key objs) = mset objs"
  by (simp add: sort_Slice_by_Key_def)

text \<open>
  The page built from a response whose pointers are all set: it holds the entries of the
  prefixes followed by those of the items, sorted by key when there are both.
\<close>

lemma page_of_response_objects:
  assumes "lr_Segment resp = Some segment"
    and "append_objects prefix_object (seg_BlobPrefixes segment) = Some dirs"
    and "append_objects item_object (seg_BlobItems segment) = Some items"
  shows "page_of_response resp
         = Return (Inr \<lparr>lp_Objects = (if dirs \<noteq> [] \<and> items \<noteq> []
                                        then sort_Slice_by_Key (dirs @ items) else dirs @ items),
                         lp_NextPageToken = to_String (lr_NextMarker resp)\<rparr>)"
proof -
  have "length dirs = length (seg_BlobPrefixes segment)"
    using assms(2) by (rule append_objects_length)
  moreover have "length items = length (seg_BlobItems segment)"
    using assms(3) by (rule append_objects_length)
  ultimately have "(length (seg_BlobPrefixes segment) > 0 \<and> length (seg_BlobItems segment) > 0)
                   = (dirs \<noteq> [] \<and> items \<noteq> [])"
    by auto
  then show ?thesis
    using assms by (simp add: page_of_response_def Let_def to_String_def)
qed

text \<open>
  C6: \<^verbatim>\<open>ListPaged\<close> called with \<^verbatim>\<open>PageSize = 0\<close> (and no \<^verbatim>\<open>BeforeList\<close> hook that rewrites the
  request) asks the backend, in one request, for pages of \<^verbatim>\<open>MaxResults = 1000\<close>, the fixed
  \<^verbatim>\<open>defaultPageSize\<close>, which is smaller than Azure's own default of 5000. When the hook (if
  any) returns no error and the backend answers with a response whose pointers are all
  set, \<^verbatim>\<open>ListPaged\<close> returns a page: its \<^verbatim>\<open>Objects\<close> are exactly the entries \<open>dirs\<close> made from
  the prefixes of the response and the entries \<open>items\<close> made from its items, each as often
  as the response holds it; its token is the marker of the response; when there are both
  prefixes and items, the \<^verbatim>\<open>Objects\<close> are sorted ascending by \<^verbatim>\<open>Key\<close>, in the byte order of
  Go's string comparison, and otherwise they keep the order of the response. And whenever
  a page returned contains both prefix entries (\<^verbatim>\<open>IsDir\<close>) and object entries, its
  \<^verbatim>\<open>Objects\<close> are sorted ascending by \<^verbatim>\<open>Key\<close>.
\<close>

theorem C6_ListPaged:
  "(lo_PageSize opts = 0 \<and> lo_BeforeList opts = None \<longrightarrow>
      fst (ListPaged backend opts)
        = [ListBlobsHierarchy (escapeKey (lo_Delimiter opts) True) (list_request opts)] \<and>
      sint (az_MaxResults (list_request opts)) = 1000) \<and>
   defaultPageSize = 1000 \<and> defaultPageSize < azureDefaultPageSize \<and>
   ((case lo_BeforeList opts of
       None \<Rightarrow> (list_request opts, None)
     | Some hook \<Rightarrow> hook (list_request opts)) = (azOpts, None) \<and>
    backend (escapeKey (lo_Delimiter opts) True) azOpts = Inr resp \<and>
    lr_Segment resp = Some segment \<and>
    append_objects prefix_object (seg_BlobPrefixes segment) = Some dirs \<and>
    append_objects item_object (seg_BlobItems segment) = Some items \<longrightarrow>
      (\<exists>page'. snd (ListPaged backend opts) = Return (Inr page') \<and>
         mset (lp_Objects page') = mset dirs + mset items \<and>
         lp_NextPageToken page' = to_String (lr_NextMarker resp) \<and>
         (dirs \<noteq> [] \<and> items \<noteq> [] \<longrightarrow>
            sorted (map (\<lambda>obj. bytes_of (lobj_Key obj)) (lp_Objects page'))) \<and>
         (dirs = [] \<or> items = [] \<longrightarrow> lp_Objects page' = dirs @ items))) \<and>
   (snd (ListPaged backend opts) = Return (Inr page) \<and>
    (\<exists>obj \<in> set (lp_Objects page). lobj_IsDir obj) \<and>
    (\<exists>obj \<in> set (lp_Objects page). \<not> lobj_IsDir obj) \<longrightarrow>
      sorted (map (\<lambda>obj. bytes_of (lobj_Key obj)) (lp_Objects page)))"
proof (intro conjI impI)
  assume a: "lo_PageSize opts = 0 \<and> lo_BeforeList opts = None"
  then show "fst (ListPaged backend opts)
             = [ListBlobsHierarchy (escapeKey (lo_Delimiter opts) True) (list_request opts)]"
    by (auto simp: ListPaged_def Let_def split: sum.splits)
  from a show "sint (az_MaxResults (list_request opts)) = 1000"
    by (simp add: list_request_default)
next
  show "defaultPageSize = 1000" by (simp add: defaultPageSize_def)
  show "defaultPageSize < azureDefaultPageSize"
    by (simp add: defaultPageSize_def azureDefaultPageSize_def)
next
  assume a: "(case lo_BeforeList opts of
       None \<Rightarrow> (list_request opts, None)
     | Some hook \<Rightarrow> hook (list_request opts)) = (azOpts, None) \<and>
    backend (escapeKey (lo_Delimiter opts) True) azOpts = Inr resp \<and>
    lr_Segment resp = Some segment \<and>
    append_objects prefix_object (seg_BlobPrefixes segment) = Some dirs \<and>
    append_objects item_object (seg_BlobItems segment) = Some items"
  define objs where
    "objs = (if dirs \<noteq> [] \<and> items \<noteq> [] then sort_Slice_by_Key (dirs @ items)
             else dirs @ items)"
  define pg where
    "pg = \<lparr>lp_Objects = objs, lp_NextPageToken = to_String (lr_NextMarker resp)\<rparr>"
  from a have "page_of_response resp = Return (Inr pg)"
    by (simp add: page_of_response_objects pg_def objs_def)
  with a have r: "snd (ListPaged backend opts) = Return (Inr pg)"
    by (simp add: ListPaged_def Let_def)
  have m: "mset (lp_Objects pg) = mset dirs + mset items"
    by (simp add: pg_def objs_def mset_sort_Slice_by_Key)
  have t: "lp_NextPageToken pg = to_String (lr_NextMarker resp)"
    by (simp add: pg_def)
  have s: "dirs \<noteq> [] \<and> items \<noteq> [] \<longrightarrow>
           sorted (map (\<lambda>obj. bytes_of (lobj_Key obj)) (lp_Objects pg))"
    by (simp add: pg_def objs_def sorted_sort_Slice_by_Key)
  have k: "dirs = [] \<or> items = [] \<longrightarrow> lp_Objects pg = dirs @ items"
    by (auto simp: pg_def objs_def)
  from r m t s k
  show "\<exists>page'. snd (ListPaged backend opts) = Return (Inr page') \<and>
         mset (lp_Objects page') = mset dirs + mset items \<and>
         lp_NextPageToken page' = to_String (lr_NextMarker resp) \<and>
         (dirs \<noteq> [] \<and> items \<noteq> [] \<longrightarrow>
            sorted (map (\<lambda>obj. bytes_of (lobj_Key obj)) (lp_Objects page'))) \<and>
         (dirs = [] \<or> items = [] \<longrightarrow> lp_Objects page' = dirs @ items)"
    by blast
next
  assume a: "snd (ListPaged backend opts) = Return (Inr page) \<and>
             (\<exists>obj \<in> set (lp_Objects page). lobj_IsDir obj) \<and>
             (\<exists>obj \<in> set (lp_Objects page). \<not> lobj_IsDir obj)"
  then obtain resp' where "page_of_response resp' = Return (Inr page)"
    using ListPaged_Return by blast
  with a show "sorted (map (\<lambda>obj. bytes_of (lobj_Key obj)) (lp_Objects page))"
    using page_of_response_sorted by blast
qed

text \<open>
  C6, witness: a listing with prefix \<^verbatim>\<open>a/\<close>, delimiter \<^verbatim>\<open>/\<close> and \<^verbatim>\<open>PageSize = 0\<close>, to which
  the backend answers with the prefix \<^verbatim>\<open>a/z/\<close> and the item \<^verbatim>\<open>a/b.txt\<close>: the request asks
  for 1000 results, and the page that \<^verbatim>\<open>ListPaged\<close> returns holds both entries, \<^verbatim>\<open>a/b.txt\<close>
  before \<^verbatim>\<open>a/z/\<close>.
\<close>

theorem C6_ListPaged_witness:
  "ListPaged
     (\<lambda>delimiter azOpts. Inr \<lparr>lr_Segment = Some
         \<lparr>seg_BlobPrefixes = [Some \<lparr>bp_Name = Some (runes ''a/z/'')\<rparr>],
          seg_BlobItems = [Some \<lparr>bi_Name = Some (runes ''a/b.txt''),
            bi_Properties = Some \<lparr>bpr_LastModified = Some 5, bpr_ContentLength = Some 10,
                                   bpr_ContentMD5 = []\<rparr>\<rparr>]\<rparr>,
         lr_NextMarker = None\<rparr>)
     \<lparr>lo_Prefix = runes ''a/'', lo_Delimiter = runes ''/'', lo_PageToken = [],
      lo_PageSize = 0, lo_BeforeList = None\<rparr>
   = ([ListBlobsHierarchy (runes ''/'')
         \<lparr>az_MaxResults = 1000, az_Prefix = runes ''a/'', az_Marker = None\<rparr>],
      Return (Inr \<lparr>lp_Objects =
        [\<lparr>lobj_Key = runes ''a/b.txt'', lobj_ModTime = 5, lobj_Size = 10, lobj_MD5 = [],
          lobj_IsDir = False\<rparr>,
         \<lparr>lobj_Key = runes ''a/z/'', lobj_ModTime = 0, lobj_Size = 0, lobj_MD5 = [],
          lobj_IsDir = True\<rparr>], lp_NextPageToken = []\<rparr>)) \<and>
   (\<exists>page'. snd (ListPaged
        (\<lambda>delimiter azOpts. Inr \<lparr>lr_Segment = Some
            \<lparr>seg_BlobPrefixes = [Some \<lparr>bp_Name = Some (runes ''a/z/'')\<rparr>],
             seg_BlobItems = [Some \<lparr>bi_Name = Some (runes ''a/b.txt''),
               bi_Properties = Some \<lparr>bpr_LastModified = Some 5, bpr_ContentLength = Some 10,
                                      bpr_ContentMD5 = []\<rparr>\<rparr>]\<rparr>,
            lr_NextMarker = None\<rparr>)
        \<lparr>lo_Prefix = runes ''a/'', lo_Delimiter = runes ''/'', lo_PageToken = [],
         lo_PageSize = 0, lo_BeforeList = None\<rparr>) = Return (Inr page') \<and>
      mset (lp_Objects page')
        = mset [\<lparr>lobj_Key = runes ''a/z/'', lobj_ModTime = 0, lobj_Size = 0, lobj_MD5 = [],
                 lobj_IsDir = True\<rparr>]
          + mset [\<lparr>lobj_Key = runes ''a/b.txt'', lobj_ModTime = 5, lobj_Size = 10,
                   lobj_MD5 = [], lobj_IsDir = False\<rparr>] \<and>
      sorted (map (\<lambda>obj. bytes_of (lobj_Key obj)) (lp_Objects page')))"
proof -
  let ?segment = "\<lparr>seg_BlobPrefixes = [Some \<lparr>bp_Name = Some (runes ''a/z/'')\<rparr>],
          seg_BlobItems = [Some \<lparr>bi_Name = Some (runes ''a/b.txt''),
            bi_Properties = Some \<lparr>bpr_LastModified = Some 5, bpr_ContentLength = Some 10,
                                   bpr_ContentMD5 = []\<rparr>\<rparr>]\<rparr>"
  let ?resp = "\<lparr>lr_Segment = Some ?segment, lr_NextMarker = None\<rparr>"
  let ?backend = "\<lambda>(delimiter :: gostring) (azOpts :: ContainerListBlobsHierarchyOptions).
        (Inr ?resp :: error + ListBlobsHierarchyResponse)"
  let ?opts = "\<lparr>lo_Prefix = runes ''a/'', lo_Delimiter = runes ''/'', lo_PageToken = [],
           lo_PageSize = 0, lo_BeforeList = None\<rparr>"
  let ?dir = "\<lparr>lobj_Key = runes ''a/z/'', lobj_ModTime = 0, lobj_Size = 0, lobj_MD5 = [],
       lobj_IsDir = True\<rparr>"
  let ?item = "\<lparr>lobj_Key = runes ''a/b.txt'', lobj_ModTime = 5, lobj_Size = 10, lobj_MD5 = [],
       lobj_IsDir = False\<rparr>"
  let ?page = "\<lparr>lp_Objects = [?item, ?dir], lp_NextPageToken = []\<rparr>"
  have h1: "lo_PageSize ?opts = 0 \<and> lo_BeforeList ?opts = None" by simp
  have d: "append_objects prefix_object (seg_BlobPrefixes ?segment) = Some [?dir]"
    by code_simp
  have i: "append_objects item_object (seg_BlobItems ?segment) = Some [?item]"
    by code_simp
  have h2: "(case lo_BeforeList ?opts of
       None \<Rightarrow> (list_request ?opts, None)
     | Some hook \<Rightarrow> hook (list_request ?opts)) = (list_request ?opts, None) \<and>
    ?backend (escapeKey (lo_Delimiter ?opts) True) (list_request ?opts) = Inr ?resp \<and>
    lr_Segment ?resp = Some ?segment \<and>
    append_objects prefix_object (seg_BlobPrefixes ?segment) = Some [?dir] \<and>
    append_objects item_object (seg_BlobItems ?segment) = Some [?item]"
    using d i by simp
  have h3: "[?dir] \<noteq> [] \<and> [?item] \<noteq> []" by simp
  have e: "ListPaged ?backend ?opts
           = ([ListBlobsHierarchy (runes ''/'')
                 \<lparr>az_MaxResults = 1000, az_Prefix = runes ''a/'', az_Marker = None\<rparr>],
              Return (Inr ?page))"
    by code_simp
  note c6 = C6_ListPaged [of ?opts ?backend "list_request ?opts" ?resp ?segment "[?dir]"
      "[?item]" ?page]
  from c6 h2 obtain page' where p: "snd (ListPaged ?backend ?opts) = Return (Inr page')"
    and m: "mset (lp_Objects page') = mset [?dir] + mset [?item]"
    and s: "[?dir] \<noteq> [] \<and> [?item] \<noteq> [] \<longrightarrow>
            sorted (map (\<lambda>obj. bytes_of (lobj_Key obj)) (lp_Objects page'))"
    by blast
  from s h3 have "sorted (map (\<lambda>obj. bytes_of (lobj_Key obj)) (lp_Objects page'))"
    by (rule mp)
  with p m have "\<exists>page'. snd (ListPaged ?backend ?opts) = Return (Inr page') \<and>
      mset (lp_Objects page') = mset [?dir] + mset [?item] \<and>
      sorted (map (\<lambda>obj. bytes_of (lobj_Key obj)) (lp_Objects page'))"
    by blast
  with e show ?thesis by (rule_tac conjI)
qed

section \<open>Claims on SignedURL and NewRangeReader\<close>

lemma method_perms_None:
  "method_perms m = None \<longleftrightarrow> m \<noteq> runes ''GET'' \<and> m \<noteq> runes ''PUT'' \<and> m \<noteq> runes ''DELETE''"
  by (simp add: method_perms_def Let_def)

text \<open>
  C7, as stated, fails: for the method \<^verbatim>\<open>PATCH\<close> (no content type asked for), \<^verbatim>\<open>SignedURL\<close>
  first makes the blob client and then returns the error of \<^verbatim>\<open>fmt.Errorf\<close>, which carries
  no portable code and which \<^verbatim>\<open>ErrorCode\<close> classifies as \<open>Unknown\<close>, not as
  \<open>InvalidArgument\<close>.
\<close>

theorem C7_SignedURL_counterexample:
  "SignedURL \<lparr>sign_NewBlobClient = (\<lambda>key. None), sign_URL = (\<lambda>key. runes ''https://h/c/'' @ key),
              sign_Now = 0,
              sign_GetSASToken = (\<lambda>key perms start expiry. (runes ''sig=1'', None))\<rparr>
     (runes ''k'')
     \<lparr>so_Method = runes ''PATCH'', so_Expiry = 60, so_ContentType = [],
      so_EnforceAbsentContentType = False, so_BeforeSign = None\<rparr>
   = ([NewBlobClient (runes ''k'')], Inl (PlainError (runes ''unsupported Method PATCH''))) \<and>
   gcerr_code (PlainError (runes ''unsupported Method PATCH'')) = None \<and>
   ErrorCode (PlainError (runes ''unsupported Method PATCH'')) = Unknown"
  by code_simp

text \<open>
  C7, amended: \<^verbatim>\<open>SignedURL\<close> called with a non-empty \<^verbatim>\<open>ContentType\<close> or with
  \<^verbatim>\<open>EnforceAbsentContentType = true\<close> returns an \<open>Unimplemented\<close> error before any call to
  the backend is made. Called without them and with a method other than GET, PUT or
  DELETE, it makes the blob client for the escaped key and, when that succeeds, returns the
  error \<^verbatim>\<open>unsupported Method <method>\<close> before any signing call is made; that error is built
  by \<^verbatim>\<open>fmt.Errorf\<close> and carries no portable code (it is not an \<open>InvalidArgument\<close> error).
\<close>

theorem C7_SignedURL:
  "(so_ContentType opts \<noteq> [] \<or> so_EnforceAbsentContentType opts \<longrightarrow>
      SignedURL env key opts
        = ([], Inl (GcerrError Unimplemented
                      (runes ''azureblob: does not enforce Content-Type on PUT'')))) \<and>
   (so_ContentType opts = [] \<and> \<not> so_EnforceAbsentContentType opts \<and>
    so_Method opts \<noteq> runes ''GET'' \<and> so_Method opts \<noteq> runes ''PUT'' \<and>
    so_Method opts \<noteq> runes ''DELETE'' \<and>
    sign_NewBlobClient env (escapeKey key False) = None \<longrightarrow>
      SignedURL env key opts
        = ([NewBlobClient (escapeKey key False)],
           Inl (PlainError (runes ''unsupported Method '' @ so_Method opts))) \<and>
      gcerr_code (PlainError (runes ''unsupported Method '' @ so_Method opts)) = None)"
proof (intro conjI impI)
  assume "so_ContentType opts \<noteq> [] \<or> so_EnforceAbsentContentType opts"
  then show "SignedURL env key opts
        = ([], Inl (GcerrError Unimplemented
                      (runes ''azureblob: does not enforce Content-Type on PUT'')))"
    by (auto simp: SignedURL_def)
next
  assume a: "so_ContentType opts = [] \<and> \<not> so_EnforceAbsentContentType opts \<and>
    so_Method opts \<noteq> runes ''GET'' \<and> so_Method opts \<noteq> runes ''PUT'' \<and>
    so_Method opts \<noteq> runes ''DELETE'' \<and>
    sign_NewBlobClient env (escapeKey key False) = None"
  then have "method_perms (so_Method opts) = None"
    by (simp add: method_perms_None)
  with a show "SignedURL env key opts
        = ([NewBlobClient (escapeKey key False)],
           Inl (PlainError (runes ''unsupported Method '' @ so_Method opts)))"
    by (simp add: SignedURL_def Let_def)
  show "gcerr_code (PlainError (runes ''unsupported Method '' @ so_Method opts)) = None"
    by simp
qed

text \<open>
  C7, witness: a PUT with content type \<^verbatim>\<open>text/plain\<close>, and a PATCH without content type,
  for the key \<^verbatim>\<open>k\<close>.
\<close>

theorem C7_SignedURL_witness:
  "SignedURL \<lparr>sign_NewBlobClient = (\<lambda>key. None),
              sign_URL = (\<lambda>key. runes ''https://h/c/'' @ key), sign_Now = 0,
              sign_GetSASToken = (\<lambda>key perms start expiry. (runes ''sig=1'', None))\<rparr>
     (runes ''k'')
     \<lparr>so_Method = runes ''PUT'', so_Expiry = 60, so_ContentType = runes ''text/plain'',
      so_EnforceAbsentContentType = False, so_BeforeSign = None\<rparr>
   = ([], Inl (GcerrError Unimplemented
                 (runes ''azureblob: does not enforce Content-Type on PUT''))) \<and>
   SignedURL \<lparr>sign_NewBlobClient = (\<lambda>key. None),
              sign_URL = (\<lambda>key. runes ''https://h/c/'' @ key), sign_Now = 0,
              sign_GetSASToken = (\<lambda>key perms start expiry. (runes ''sig=1'', None))\<rparr>
     (runes ''k'')
     \<lparr>so_Method = runes ''PATCH'', so_Expiry = 60, so_ContentType = [],
      so_EnforceAbsentContentType = False, so_BeforeSign = None\<rparr>
   = ([NewBlobClient (escapeKey (runes ''k'') False)],
      Inl (PlainError (runes ''unsupported Method '' @ runes ''PATCH'')))"
proof -
  let ?env = "\<lparr>sign_NewBlobClient = (\<lambda>key :: gostring. None :: error option),
               sign_URL = (\<lambda>key. runes ''https://h/c/'' @ key), sign_Now = 0,
               sign_GetSASToken = (\<lambda>(key :: gostring) (perms :: BlobSASPermissions)
                  (start :: int) (expiry :: int). (runes ''sig=1'', None :: error option))\<rparr>"
  let ?put = "\<lparr>so_Method = runes ''PUT'', so_Expiry = 60, so_ContentType = runes ''text/plain'',
             so_EnforceAbsentContentType = False, so_BeforeSign = None\<rparr>"
  let ?patch = "\<lparr>so_Method = runes ''PATCH'', so_Expiry = 60, so_ContentType = [],
      so_EnforceAbsentContentType = False, so_BeforeSign = None\<rparr>"
  have h1: "so_ContentType ?put \<noteq> [] \<or> so_EnforceAbsentContentType ?put"
    by (simp add: runes_def)
  have h2: "so_ContentType ?patch = [] \<and> \<not> so_EnforceAbsentContentType ?patch \<and>
    so_Method ?patch \<noteq> runes ''GET'' \<and> so_Method ?patch \<noteq> runes ''PUT'' \<and>
    so_Method ?patch \<noteq> runes ''DELETE'' \<and>
    sign_NewBlobClient ?env (escapeKey (runes ''k'') False) = None"
    by (simp add: runes_def)
  from h1 C7_SignedURL [of ?put ?env "runes ''k''"]
  have 1: "SignedURL ?env (runes ''k'') ?put
             = ([], Inl (GcerrError Unimplemented
                           (runes ''azureblob: does not enforce Content-Type on PUT'')))"
    by (rule mp [OF conjunct1, rotated])
  from h2 C7_SignedURL [of ?patch ?env "runes ''k''"]
  have 2: "SignedURL ?env (runes ''k'') ?patch
        = ([NewBlobClient (escapeKey (runes ''k'') False)],
           Inl (PlainError (runes ''unsupported Method '' @ so_Method ?patch)))"
    by blast
  from 1 2 show ?thesis by simp
qed

text \<open>
  Once the checks of \<^verbatim>\<open>SignedURL\<close> have passed, its result is a URL with a nil error,
  whatever \<^verbatim>\<open>GetSASToken\<close> returned.
\<close>

lemma SignedURL_ignores_signing_error:
  assumes "so_ContentType opts = []" "\<not> so_EnforceAbsentContentType opts"
    and "sign_NewBlobClient env (escapeKey key False) = None"
    and "method_perms (so_Method opts) = Some perms" "so_BeforeSign opts = None"
  shows "\<exists>sasURL. snd (SignedURL env key opts) = Inr sasURL"
  using assms by (simp add: SignedURL_def Let_def split: prod.splits)

text \<open>
  When no \<^verbatim>\<open>BeforeRead\<close> hook stops it, \<^verbatim>\<open>NewRangeReader\<close> calls \<^verbatim>\<open>Download\<close> on the client
  that \<^verbatim>\<open>NewBlobClient\<close> returned, whatever error came with it.
\<close>

lemma NewRangeReader_ignores_client_error:
  assumes "read_NewBlobClient env (escapeKey key False) = (blobClient, err)"
    and "ro_BeforeRead opts = None"
  shows "\<exists>downloadOpts. fst (NewRangeReader env key offset length' opts)
           = [NewBlobClient (escapeKey key False), Download blobClient downloadOpts]"
  using assms
  by (auto simp: NewRangeReader_def Let_def split: prod.splits outcome.splits option.splits)

text \<open>
  C8, as the code has it: the claim fails on both operations. When the checks of
  \<^verbatim>\<open>SignedURL\<close> have passed (no content type asked for, the client made, a supported
  method, no hook) and \<^verbatim>\<open>GetSASToken\<close> fails with \<open>err\<close>, \<^verbatim>\<open>SignedURL\<close> returns the URL
  built from the parameters of the failed call, and no error. When \<^verbatim>\<open>NewBlobClient\<close> fails
  with \<open>err\<close> inside \<^verbatim>\<open>NewRangeReader\<close>, the calls and the result of \<^verbatim>\<open>NewRangeReader\<close> are
  those of a run in which \<^verbatim>\<open>NewBlobClient\<close> returned the same client and no error.
\<close>

theorem C8_errors_swallowed:
  "(so_ContentType opts = [] \<and> \<not> so_EnforceAbsentContentType opts \<and>
    sign_NewBlobClient env (escapeKey key False) = None \<and>
    method_perms (so_Method opts) = Some perms \<and> so_BeforeSign opts = None \<and>
    sign_GetSASToken env (escapeKey key False) perms (sign_Now env)
      (sign_Now env + so_Expiry opts) = (sasQueryParams, Some err)
    \<longrightarrow> snd (SignedURL env key opts)
          = Inr (sign_URL env (escapeKey key False) @ runes ''?'' @ sasQueryParams)) \<and>
   (read_NewBlobClient renv (escapeKey key False) = (blobClient, Some err)
    \<longrightarrow> NewRangeReader renv key offset length' ropts
          = NewRangeReader (renv\<lparr>read_NewBlobClient := (\<lambda>k. (blobClient, None))\<rparr>)
              key offset length' ropts)"
proof (intro conjI impI)
  assume "so_ContentType opts = [] \<and> \<not> so_EnforceAbsentContentType opts \<and>
    sign_NewBlobClient env (escapeKey key False) = None \<and>
    method_perms (so_Method opts) = Some perms \<and> so_BeforeSign opts = None \<and>
    sign_GetSASToken env (escapeKey key False) perms (sign_Now env)
      (sign_Now env + so_Expiry opts) = (sasQueryParams, Some err)"
  then show "snd (SignedURL env key opts)
          = Inr (sign_URL env (escapeKey key False) @ runes ''?'' @ sasQueryParams)"
    by (simp add: SignedURL_def Let_def)
next
  assume "read_NewBlobClient renv (escapeKey key False) = (blobClient, Some err)"
  then show "NewRangeReader renv key offset length' ropts
          = NewRangeReader (renv\<lparr>read_NewBlobClient := (\<lambda>k. (blobClient, None))\<rparr>)
              key offset length' ropts"
    by (simp add: NewRangeReader_def Let_def)
qed

text \<open>
  C8, witness, where the claim fails. First: a GET is signed for the key \<^verbatim>\<open>k\<close> and
  \<^verbatim>\<open>GetSASToken\<close> fails with the error \<^verbatim>\<open>no key\<close> and empty parameters; \<^verbatim>\<open>SignedURL\<close>
  returns the URL \<^verbatim>\<open>https://h/c/k?\<close> and a nil error. Second: \<^verbatim>\<open>NewBlobClient\<close> fails with
  the error \<^verbatim>\<open>bad name\<close> and a nil client; \<^verbatim>\<open>NewRangeReader\<close> does not return it but calls
  \<^verbatim>\<open>Download\<close> on the nil client, which panics.
\<close>

theorem C8_errors_swallowed_witness:
  "SignedURL \<lparr>sign_NewBlobClient = (\<lambda>key. None), sign_URL = (\<lambda>key. runes ''https://h/c/'' @ key),
              sign_Now = 0,
              sign_GetSASToken =
                (\<lambda>key perms start expiry. ([], Some (PlainError (runes ''no key''))))\<rparr>
     (runes ''k'')
     \<lparr>so_Method = runes ''GET'', so_Expiry = 60, so_ContentType = [],
      so_EnforceAbsentContentType = False, so_BeforeSign = None\<rparr>
   = ([NewBlobClient (runes ''k''),
       GetSASToken (runes ''k'')
         \<lparr>perm_Read = True, perm_Create = False, perm_Write = False, perm_Delete = False\<rparr>
         0 60],
      Inr (runes ''https://h/c/k?'')) \<and>
   NewRangeReader
     \<lparr>read_NewBlobClient = (\<lambda>key. (None, Some (PlainError (runes ''bad name'')))),
      read_Download = (\<lambda>client downloadOpts.
         case client of None \<Rightarrow> Panic
         | Some c \<Rightarrow> Return (\<lparr>dr_ContentType = None, dr_ContentLength = Some 0,
                                dr_ContentRange = None, dr_LastModified = Some 0\<rparr>, None))\<rparr>
     (runes ''k'') 0 (- 1) \<lparr>ro_BeforeRead = None\<rparr>
   = ([NewBlobClient (runes ''k''),
       Download None \<lparr>dl_Offset = 0, dl_Count = None\<rparr>],
      Panic)"
proof -
  let ?env = "\<lparr>sign_NewBlobClient = (\<lambda>key :: gostring. None :: error option),
               sign_URL = (\<lambda>key. runes ''https://h/c/'' @ key), sign_Now = 0,
               sign_GetSASToken = (\<lambda>(key :: gostring) (perms :: BlobSASPermissions)
                  (start :: int) (expiry :: int).
                  ([] :: gostring, Some (PlainError (runes ''no key''))))\<rparr>"
  let ?opts = "\<lparr>so_Method = runes ''GET'', so_Expiry = 60, so_ContentType = [],
      so_EnforceAbsentContentType = False, so_BeforeSign = None\<rparr>"
  let ?perms = "\<lparr>perm_Read = True, perm_Create = False, perm_Write = False,
                 perm_Delete = False\<rparr>"
  let ?renv = "\<lparr>read_NewBlobClient =
        (\<lambda>key :: gostring. (None :: gostring option, Some (PlainError (runes ''bad name'')))),
      read_Download = (\<lambda>(client :: gostring option) (downloadOpts :: BlobDownloadOptions).
         case client of None \<Rightarrow> Panic
         | Some c \<Rightarrow> Return (\<lparr>dr_ContentType = None, dr_ContentLength = Some 0,
                                dr_ContentRange = None, dr_LastModified = Some 0\<rparr>, None))\<rparr>"
  let ?ropts = "\<lparr>ro_BeforeRead = None\<rparr>"
  have m: "method_perms (so_Method ?opts) = Some ?perms" by code_simp
  have h1: "so_ContentType ?opts = [] \<and> \<not> so_EnforceAbsentContentType ?opts \<and>
    sign_NewBlobClient ?env (escapeKey (runes ''k'') False) = None \<and>
    method_perms (so_Method ?opts) = Some ?perms \<and> so_BeforeSign ?opts = None \<and>
    sign_GetSASToken ?env (escapeKey (runes ''k'') False) ?perms (sign_Now ?env)
      (sign_Now ?env + so_Expiry ?opts) = ([], Some (PlainError (runes ''no key'')))"
    using m by simp
  have h2: "read_NewBlobClient ?renv (escapeKey (runes ''k'') False)
            = (None, Some (PlainError (runes ''bad name'')))"
    by simp
  note c8 = C8_errors_swallowed [of ?opts ?env "runes ''k''" ?perms "[]"
      "PlainError (runes ''no key'')" ?renv None 0 "- 1" ?ropts]
  have u: "sign_URL ?env (escapeKey (runes ''k'') False) @ runes ''?'' @ []
           = runes ''https://h/c/k?''"
    by code_simp
  from c8 h1 have "snd (SignedURL ?env (runes ''k'') ?opts)
      = Inr (sign_URL ?env (escapeKey (runes ''k'') False) @ runes ''?'' @ [])"
    by blast
  with u have 1: "snd (SignedURL ?env (runes ''k'') ?opts) = Inr (runes ''https://h/c/k?'')"
    by (simp only:)
  have 2: "fst (SignedURL ?env (runes ''k'') ?opts)
           = [NewBlobClient (runes ''k''), GetSASToken (runes ''k'') ?perms 0 60]"
    by code_simp
  have 3: "NewRangeReader ?renv (runes ''k'') 0 (- 1) ?ropts
           = ([NewBlobClient (runes ''k''), Download None \<lparr>dl_Offset = 0, dl_Count = None\<rparr>],
              Panic)"
    by code_simp
  from 1 2 have 4: "SignedURL ?env (runes ''k'') ?opts
      = ([NewBlobClient (runes ''k''), GetSASToken (runes ''k'') ?perms 0 60],
         Inr (runes ''https://h/c/k?''))"
    by (simp add: prod_eq_iff)
  from 4 3 show ?thesis by (rule conjI)
qed

section \<open>Claims on NewTypedWriter and the writer\<close>

lemma HexEscape_Cons:
  "\<exists>t. HexEscape (c # cs) f = (if f (c # cs) 0 then marker c else [c]) @ t"
  by (simp add: HexEscape_def upt_conv_Cons del: upt_Suc)

lemma escapeMetadataKey_leading_digit:
  assumes "48 \<le> d" "d \<le> 57"
  shows "take (length (marker d)) (escapeMetadataKey (d # rest)) = marker d"
proof -
  from assms have "shouldEscapeMetadataKey (d # rest) 0"
    by (simp add: shouldEscapeMetadataKey_def)
  with HexEscape_Cons [of d rest shouldEscapeMetadataKey]
  obtain t where "escapeMetadataKey (d # rest) = marker d @ t"
    by (auto simp: escapeMetadataKey_def)
  then show ?thesis by simp
qed

text \<open>
  The loop over the metadata fails as soon as an entry escapes to a key that is in \<open>md\<close>
  already: it does so when an entry to come escapes to a key of \<open>md\<close>, or when two entries
  to come escape to the same key.
\<close>

lemma escape_metadata_duplicate:
  assumes "(\<exists>kv \<in> set kvs. escapeMetadataKey (fst kv) \<in> fst ` set md)
           \<or> \<not> distinct (map (\<lambda>kv. escapeMetadataKey (fst kv)) kvs)"
  shows "\<exists>k \<in> fst ` set kvs.
           escape_metadata env kvs md = Inl (duplicate_keys_error env k (escapeMetadataKey k))"
  using assms
proof (induction kvs arbitrary: md)
  case Nil
  then show ?case by simp
next
  case (Cons kv kvs)
  obtain k v where kv: "kv = (k, v)" by (cases kv)
  show ?case
  proof (cases "map_of md (escapeMetadataKey k) \<noteq> None")
    case True
    then show ?thesis by (simp add: kv Let_def)
  next
    case False
    then have notin: "escapeMetadataKey k \<notin> fst ` set md"
      by (simp add: map_of_eq_None_iff)
    let ?md = "md @ [(escapeMetadataKey k, write_URLEscape env v)]"
    have "(\<exists>kv' \<in> set kvs. escapeMetadataKey (fst kv') \<in> fst ` set ?md)
          \<or> \<not> distinct (map (\<lambda>kv. escapeMetadataKey (fst kv)) kvs)"
      using Cons.prems notin by (force simp: kv)
    from Cons.IH [OF this] False show ?thesis
      by (auto simp: kv Let_def)
  qed
qed

lemma not_distinct_escaped:
  assumes "(k1, v1) \<in> set kvs" "(k2, v2) \<in> set kvs" "k1 \<noteq> k2"
    and "escapeMetadataKey k1 = escapeMetadataKey k2"
  shows "\<not> distinct (map (\<lambda>kv. escapeMetadataKey (fst kv)) kvs)"
proof
  assume "distinct (map (\<lambda>kv. escapeMetadataKey (fst kv)) kvs)"
  then have "inj_on (\<lambda>kv. escapeMetadataKey (fst kv)) (set kvs)"
    by (simp add: distinct_map)
  from inj_onD [OF this _ assms(1,2)] assms(3,4) show False by simp
qed

text \<open>
  C9, amended: in the metadata escaping of \<^verbatim>\<open>NewTypedWriter\<close>, a metadata key whose first
  character is an ASCII digit has that leading digit escaped (the escaped key starts with
  the marker of the digit); and if two distinct original metadata keys escape to the same
  escaped key, \<^verbatim>\<open>NewTypedWriter\<close>, once the block blob client for the escaped key is made,
  fails with the error \<^verbatim>\<open>duplicate keys after escaping\<close> for one of the keys, without
  creating a writer and before any upload; that error is built by \<^verbatim>\<open>fmt.Errorf\<close> and carries
  no portable code (it is not an \<open>InvalidArgument\<close> error).
\<close>

theorem C9_NewTypedWriter:
  "(48 \<le> d \<and> d \<le> 57 \<longrightarrow>
      take (length (marker d)) (escapeMetadataKey (d # rest)) = marker d) \<and>
   ((k1, v1) \<in> set (wo_Metadata opts) \<and> (k2, v2) \<in> set (wo_Metadata opts) \<and> k1 \<noteq> k2 \<and>
    escapeMetadataKey k1 = escapeMetadataKey k2 \<and>
    write_NewBlockBlobClient env (escapeKey key False) = None \<longrightarrow>
      (\<exists>k \<in> fst ` set (wo_Metadata opts).
         NewTypedWriter env key contentType opts
           = ([NewBlockBlobClient (escapeKey key False)],
              Inl (duplicate_keys_error env k (escapeMetadataKey k))) \<and>
         gcerr_code (duplicate_keys_error env k (escapeMetadataKey k)) = None))"
proof (intro conjI impI)
  assume "48 \<le> d \<and> d \<le> 57"
  then show "take (length (marker d)) (escapeMetadataKey (d # rest)) = marker d"
    by (simp add: escapeMetadataKey_leading_digit)
next
  assume a: "(k1, v1) \<in> set (wo_Metadata opts) \<and> (k2, v2) \<in> set (wo_Metadata opts) \<and> k1 \<noteq> k2 \<and>
    escapeMetadataKey k1 = escapeMetadataKey k2 \<and>
    write_NewBlockBlobClient env (escapeKey key False) = None"
  then have client: "write_NewBlockBlobClient env (escapeKey key False) = None"
    by simp
  from a have m: "(k1, v1) \<in> set (wo_Metadata opts)" "(k2, v2) \<in> set (wo_Metadata opts)"
    "k1 \<noteq> k2" "escapeMetadataKey k1 = escapeMetadataKey k2"
    by simp_all
  have "\<not> distinct (map (\<lambda>kv. escapeMetadataKey (fst kv)) (wo_Metadata opts))"
    using m by (rule not_distinct_escaped)
  then have "(\<exists>kv \<in> set (wo_Metadata opts). escapeMetadataKey (fst kv) \<in> fst ` set [])
             \<or> \<not> distinct (map (\<lambda>kv. escapeMetadataKey (fst kv)) (wo_Metadata opts))"
    by (rule disjI2)
  from escape_metadata_duplicate [OF this, of env]
  obtain k where k: "k \<in> fst ` set (wo_Metadata opts)"
    and e: "escape_metadata env (wo_Metadata opts) []
             = Inl (duplicate_keys_error env k (escapeMetadataKey k))"
    by (rule bexE)
  have r: "NewTypedWriter env key contentType opts
           = ([NewBlockBlobClient (escapeKey key False)],
              Inl (duplicate_keys_error env k (escapeMetadataKey k)))"
    by (simp add: NewTypedWriter_def Let_def client e)
  have g: "gcerr_code (duplicate_keys_error env k (escapeMetadataKey k)) = None"
    by (simp add: duplicate_keys_error_def)
  from k r g show "\<exists>k \<in> fst ` set (wo_Metadata opts).
         NewTypedWriter env key contentType opts
           = ([NewBlockBlobClient (escapeKey key False)],
              Inl (duplicate_keys_error env k (escapeMetadataKey k))) \<and>
         gcerr_code (duplicate_keys_error env k (escapeMetadataKey k)) = None"
    by (intro bexI conjI)
qed

text \<open>
  C9, as stated, fails: with the metadata keys \<^verbatim>\<open>-\<close> and \<^verbatim>\<open>__0x2d__\<close>, which both escape to
  \<^verbatim>\<open>__0x2d__\<close>, \<^verbatim>\<open>NewTypedWriter\<close> first makes the block blob client and then returns the
  error of \<^verbatim>\<open>fmt.Errorf\<close>, which carries no portable code and which \<^verbatim>\<open>ErrorCode\<close> classifies
  as \<open>Unknown\<close>, not as \<open>InvalidArgument\<close>. Quoting puts a string between double quotes here
  (code point 34).
\<close>

theorem C9_NewTypedWriter_counterexample:
  "NewTypedWriter
     \<lparr>write_NewBlockBlobClient = (\<lambda>key. None), write_URLEscape = (\<lambda>v. v),
      write_Quote = (\<lambda>s. [34] @ s @ [34])\<rparr>
     (runes ''k'') (runes ''text/plain'')
     \<lparr>wo_BufferSize = 0, wo_MaxConcurrency = 0, wo_CacheControl = [],
      wo_ContentDisposition = [], wo_ContentEncoding = [], wo_ContentLanguage = [],
      wo_ContentMD5 = [],
      wo_Metadata = [(runes ''-'', runes ''a''), (runes ''__0x2d__'', runes ''b'')],
      wo_BeforeWrite = None\<rparr>
   = ([NewBlockBlobClient (runes ''k'')],
      Inl (PlainError (runes ''duplicate keys after escaping: '' @ [34] @ runes ''__0x2d__''
                         @ [34] @ runes '' => '' @ [34] @ runes ''__0x2d__'' @ [34]))) \<and>
   gcerr_code (PlainError (runes ''duplicate keys after escaping: '' @ [34] @ runes ''__0x2d__''
                             @ [34] @ runes '' => '' @ [34] @ runes ''__0x2d__'' @ [34])) = None \<and>
   ErrorCode (PlainError (runes ''duplicate keys after escaping: '' @ [34] @ runes ''__0x2d__''
                            @ [34] @ runes '' => '' @ [34] @ runes ''__0x2d__'' @ [34])) = Unknown"
  by code_simp

text \<open>
  C9, witness: the metadata key \<^verbatim>\<open>1st\<close>, and a writer for the key \<^verbatim>\<open>k\<close> with the metadata
  keys \<^verbatim>\<open>a-b\<close> and \<^verbatim>\<open>a__0x2d__b\<close>.
\<close>

theorem C9_NewTypedWriter_witness:
  "take (length (marker 49)) (escapeMetadataKey (49 # runes ''st'')) = marker 49 \<and>
   (\<exists>k \<in> fst ` set [(runes ''a-b'', runes ''x''), (runes ''a__0x2d__b'', runes ''y'')].
      NewTypedWriter
        \<lparr>write_NewBlockBlobClient = (\<lambda>key. None), write_URLEscape = (\<lambda>v. v),
         write_Quote = (\<lambda>s. [34] @ s @ [34])\<rparr>
        (runes ''k'') (runes ''text/plain'')
        \<lparr>wo_BufferSize = 0, wo_MaxConcurrency = 0, wo_CacheControl = [],
         wo_ContentDisposition = [], wo_ContentEncoding = [], wo_ContentLanguage = [],
         wo_ContentMD5 = [],
         wo_Metadata = [(runes ''a-b'', runes ''x''), (runes ''a__0x2d__b'', runes ''y'')],
         wo_BeforeWrite = None\<rparr>
      = ([NewBlockBlobClient (escapeKey (runes ''k'') False)],
         Inl (duplicate_keys_error
                \<lparr>write_NewBlockBlobClient = (\<lambda>key. None), write_URLEscape = (\<lambda>v. v),
                 write_Quote = (\<lambda>s. [34] @ s @ [34])\<rparr>
                k (escapeMetadataKey k))))"
proof -
  let ?env = "\<lparr>write_NewBlockBlobClient = (\<lambda>key :: gostring. None :: error option),
               write_URLEscape = (\<lambda>v :: gostring. v),
               write_Quote = (\<lambda>s :: gostring. [34] @ s @ [34])\<rparr>"
  let ?md = "[(runes ''a-b'', runes ''x''), (runes ''a__0x2d__b'', runes ''y'')]"
  let ?opts = "\<lparr>wo_BufferSize = 0, wo_MaxConcurrency = 0, wo_CacheControl = [],
         wo_ContentDisposition = [], wo_ContentEncoding = [], wo_ContentLanguage = [],
         wo_ContentMD5 = [], wo_Metadata = ?md, wo_BeforeWrite = None\<rparr>"
  have h1: "(48::int) \<le> 49 \<and> (49::int) \<le> 57" by simp
  have ne: "runes ''a-b'' \<noteq> runes ''a__0x2d__b''" by code_simp
  have eq: "escapeMetadataKey (runes ''a-b'') = escapeMetadataKey (runes ''a__0x2d__b'')"
    by code_simp
  have h2: "(runes ''a-b'', runes ''x'') \<in> set (wo_Metadata ?opts) \<and>
            (runes ''a__0x2d__b'', runes ''y'') \<in> set (wo_Metadata ?opts) \<and>
            runes ''a-b'' \<noteq> runes ''a__0x2d__b'' \<and>
            escapeMetadataKey (runes ''a-b'') = escapeMetadataKey (runes ''a__0x2d__b'') \<and>
            write_NewBlockBlobClient ?env (escapeKey (runes ''k'') False) = None"
    using ne eq by simp
  note c9 = C9_NewTypedWriter [of 49 "runes ''st''" "runes ''a-b''" "runes ''x''" ?opts
      "runes ''a__0x2d__b''" "runes ''y''" ?env "runes ''k''" "runes ''text/plain''"]
  from c9 h1 have 1: "take (length (marker 49)) (escapeMetadataKey (49 # runes ''st'')) = marker 49"
    by blast
  from c9 h2 have "\<exists>k \<in> fst ` set (wo_Metadata ?opts).
         NewTypedWriter ?env (runes ''k'') (runes ''text/plain'') ?opts
           = ([NewBlockBlobClient (escapeKey (runes ''k'') False)],
              Inl (duplicate_keys_error ?env k (escapeMetadataKey k))) \<and>
         gcerr_code (duplicate_keys_error ?env k (escapeMetadataKey k)) = None"
    by (rule_tac mp [OF conjunct2])
  then have 2: "\<exists>k \<in> fst ` set ?md.
         NewTypedWriter ?env (runes ''k'') (runes ''text/plain'') ?opts
           = ([NewBlockBlobClient (escapeKey (runes ''k'') False)],
              Inl (duplicate_keys_error ?env k (escapeMetadataKey k)))"
    by auto
  from 1 2 show ?thesis by (rule conjI)
qed

lemma Write_empty: "Write env [] w = ((0, None), w)"
  by (simp add: Write_def)

lemma fold_Write_empty:
  "list_all (\<lambda>p. p = []) ps \<Longrightarrow> fold (\<lambda>p w. snd (Write env p w)) ps w = w"
  by (induction ps) (simp_all add: Write_empty)

lemma Close_unwritten:
  "\<not> wr_w w \<Longrightarrow>
   Close env w = (upload_err env, w\<lparr>wr_uploads := wr_uploads w @ [UploadStream NoBody]\<rparr>)"
  by (simp add: Close_def writer_open_def)

text \<open>
  C10: \<^verbatim>\<open>Write\<close> called with an empty byte slice returns \<^verbatim>\<open>(0, nil)\<close> and leaves the writer
  as it is: no pipe is made and no upload task is started. So a writer without pipe on which
  only empty slices \<open>ps\<close> were written is, for \<^verbatim>\<open>Close\<close>, the writer that was never written
  to: \<^verbatim>\<open>Close\<close> starts the one upload, with the empty body \<^verbatim>\<open>http.NoBody\<close>, and returns the
  error of that upload.
\<close>

theorem C10_Write_empty:
  assumes "list_all (\<lambda>p. p = []) ps" and "\<not> wr_w w"
  shows "Write env [] w = ((0, None), w) \<and>
         fold (\<lambda>p w. snd (Write env p w)) ps w = w \<and>
         Close env (fold (\<lambda>p w. snd (Write env p w)) ps w) = Close env w \<and>
         Close env w
           = (upload_err env, w\<lparr>wr_uploads := wr_uploads w @ [UploadStream NoBody]\<rparr>)"
  using assms by (simp add: Write_empty fold_Write_empty Close_unwritten)

text \<open>
  C10, witness: the writer that \<^verbatim>\<open>NewTypedWriter\<close> returns for the key \<^verbatim>\<open>k\<close>, two empty
  writes, and an upload that succeeds.
\<close>

theorem C10_Write_empty_witness:
  "Close \<lparr>pipe_Write = (\<lambda>p. (int (length p), None)), pipe_Close = None, upload_err = None\<rparr>
     (fold (\<lambda>p w. snd (Write \<lparr>pipe_Write = (\<lambda>p. (int (length p), None)), pipe_Close = None,
                                upload_err = None\<rparr> p w))
        [Nil, Nil]
        \<lparr>wr_client = runes ''k'',
         wr_uploadOpts = \<lparr>us_BufferSize = 8388608, us_MaxBuffers = 5, us_Metadata = [],
            us_HTTPHeaders = \<lparr>hd_BlobCacheControl = [], hd_BlobContentDisposition = [],
              hd_BlobContentEncoding = [], hd_BlobContentLanguage = [], hd_BlobContentMD5 = [],
              hd_BlobContentType = runes ''text/plain''\<rparr>\<rparr>,
         wr_w = False, wr_uploads = []\<rparr>)
   = (None,
      \<lparr>wr_client = runes ''k'',
       wr_uploadOpts = \<lparr>us_BufferSize = 8388608, us_MaxBuffers = 5, us_Metadata = [],
          us_HTTPHeaders = \<lparr>hd_BlobCacheControl = [], hd_BlobContentDisposition = [],
            hd_BlobContentEncoding = [], hd_BlobContentLanguage = [], hd_BlobContentMD5 = [],
            hd_BlobContentType = runes ''text/plain''\<rparr>\<rparr>,
       wr_w = False, wr_uploads = [UploadStream NoBody]\<rparr>)"
proof -
  let ?env = "\<lparr>pipe_Write = (\<lambda>p :: int list. (int (length p), None :: error option)),
               pipe_Close = None, upload_err = None\<rparr>"
  let ?w = "\<lparr>wr_client = runes ''k'',
         wr_uploadOpts = \<lparr>us_BufferSize = 8388608, us_MaxBuffers = 5, us_Metadata = [],
            us_HTTPHeaders = \<lparr>hd_BlobCacheControl = [], hd_BlobContentDisposition = [],
              hd_BlobContentEncoding = [], hd_BlobContentLanguage = [], hd_BlobContentMD5 = [],
              hd_BlobContentType = runes ''text/plain''\<rparr>\<rparr>,
         wr_w = False, wr_uploads = []\<rparr>"
  have h1: "list_all (\<lambda>p. p = []) [Nil, Nil :: int list]" by simp
  have h2: "\<not> wr_w ?w" by simp
  from C10_Write_empty [OF h1 h2, of ?env] show ?thesis by simp
qed

end
